theory Spec2Isabelle
  imports Main "HOL-Library.Sublist"
begin

section \<open>Text workflow tools: request models, step decisions, expert context\<close>

text \<open>
  The repository holds three workflow tools, \<^verbatim>\<open>textanalyze\<close>, \<^verbatim>\<open>textrefactor\<close> and
  \<^verbatim>\<open>textreview\<close>. Each one declares a pydantic request class and a tool class with four
  methods on a validated request: \<^verbatim>\<open>should_embed_files_as_context\<close>,
  \<^verbatim>\<open>get_required_actions\<close>, \<^verbatim>\<open>should_call_expert_analysis\<close> and
  \<^verbatim>\<open>prepare_expert_analysis_context\<close>. This theory embeds the request classes (with the
  checks their \<^verbatim>\<open>Field\<close> declarations ask pydantic to make) and the four methods of each
  tool, and proves what the specification says about them.
\<close>

subsection \<open>Python values and their printed form\<close>

text \<open>
  An entry of \<^verbatim>\<open>issues_found\<close> is a \<^verbatim>\<open>dict[str, Any]\<close> that arrives as decoded JSON.
  \<open>pyval\<close> is the type of such values: \<^verbatim>\<open>None\<close>, booleans, integers, strings, lists and
  dictionaries with string keys, a dictionary being the list of its items in insertion
  order. Floating-point numbers are not part of the model. A string is the list of its
  code points, and the model covers the code points below 256.
\<close>

datatype pyval =
    PNone
  | PBool bool
  | PInt int
  | PStr string
  | PList "pyval list"
  | PDict "(string \<times> pyval) list"

type_synonym pydict = "(string \<times> pyval) list"

text \<open>\<^verbatim>\<open>sep.join(parts)\<close>\<close>

fun str_join :: "string \<Rightarrow> string list \<Rightarrow> string" where
  "str_join sep [] = []"
| "str_join sep [x] = x"
| "str_join sep (x # y # ys) = x @ sep @ str_join sep (y # ys)"

text \<open>\<^verbatim>\<open>str.upper\<close> on ASCII letters, which is all the closed vocabularies contain; any
  other character is left as it is.\<close>

definition upper_char :: "char \<Rightarrow> char" where
  "upper_char c =
     (case map_of (zip ''abcdefghijklmnopqrstuvwxyz'' ''ABCDEFGHIJKLMNOPQRSTUVWXYZ'') c of
        Some u \<Rightarrow> u
      | None \<Rightarrow> c)"

definition str_upper :: "string \<Rightarrow> string" where
  "str_upper s = map upper_char s"

text \<open>\<^verbatim>\<open>str(n)\<close> for an integer: decimal digits, with a minus sign when negative.\<close>

definition digit_char :: "nat \<Rightarrow> char" where
  "digit_char n = ''0123456789abcdef'' ! (n mod 16)"

fun str_nat :: "nat \<Rightarrow> string" where
  "str_nat n = (if n < 10 then [digit_char n] else str_nat (n div 10) @ [digit_char (n mod 10)])"

declare str_nat.simps [simp del]

definition str_int :: "int \<Rightarrow> string" where
  "str_int i = (if i < 0 then ''-'' @ str_nat (nat (- i)) else str_nat (nat i))"

text \<open>
  \<^verbatim>\<open>repr(s)\<close> for a string: single quotes, or double quotes when the string has a single
  quote and no double quote; the quote character and the backslash are escaped with a
  backslash, tab, line feed and carriage return become \<^verbatim>\<open>\t\<close>, \<^verbatim>\<open>\n\<close>, \<^verbatim>\<open>\r\<close>, and every
  other character that is not printable becomes \<^verbatim>\<open>\xNN\<close>. Below 256 the printable code
  points are 32 to 126 and 161 to 255 without 173.
\<close>

definition isprintable :: "char \<Rightarrow> bool" where
  "isprintable c =
     (let n = (of_char c :: nat) in (32 \<le> n \<and> n < 127) \<or> (161 \<le> n \<and> n \<noteq> 173))"

definition repr_char :: "char \<Rightarrow> char \<Rightarrow> string" where
  "repr_char quote c =
     (if c = quote \<or> c = CHR 0x5C then [CHR 0x5C, c]
      else if c = CHR 0x09 then [CHR 0x5C, CHR ''t'']
      else if c = CHR 0x0A then [CHR 0x5C, CHR ''n'']
      else if c = CHR 0x0D then [CHR 0x5C, CHR ''r'']
      else if \<not> isprintable c then
        [CHR 0x5C, CHR ''x'', digit_char (of_char c div 16), digit_char (of_char c mod 16)]
      else [c])"

definition repr_str :: "string \<Rightarrow> string" where
  "repr_str s =
     (let quote = (if CHR 0x27 \<in> set s \<and> CHR 0x22 \<notin> set s then CHR 0x22 else CHR 0x27)
      in [quote] @ concat (map (repr_char quote) s) @ [quote])"

text \<open>\<^verbatim>\<open>repr(v)\<close>; a list prints as \<^verbatim>\<open>[a, b]\<close> and a dictionary as \<^verbatim>\<open>{'k': v, 'l': w}\<close>.\<close>

primrec repr :: "pyval \<Rightarrow> string" where
  "repr PNone = ''None''"
| "repr (PBool b) = (if b then ''True'' else ''False'')"
| "repr (PInt i) = str_int i"
| "repr (PStr s) = repr_str s"
| "repr (PList xs) = ''['' @ str_join '', '' (map repr xs) @ '']''"
| "repr (PDict kvs) =
     ''{'' @ str_join '', '' (map (\<lambda>(k, s). repr_str k @ '': '' @ s) (map (map_prod id repr) kvs))
       @ ''}''"

text \<open>The truth value Python gives an \<^verbatim>\<open>Optional[list]\<close> in \<^verbatim>\<open>if xs:\<close>: \<^verbatim>\<open>None\<close> and the
  empty list are false.\<close>

fun truthy :: "'a list option \<Rightarrow> bool" where
  "truthy None = False"
| "truthy (Some []) = False"
| "truthy (Some (x # xs)) = True"

subsection \<open>The request classes\<close>

text \<open>
  The three request classes declare the same eleven workflow fields and differ in the
  tool-specific ones. \<open>workflow_request\<close> holds the shared fields; each tool's record
  extends it. A \<^verbatim>\<open>Literal[...]\<close> field is a string, as in the source, where the methods
  compare it with string constants.
\<close>

record workflow_request =
  step :: string
  step_number :: int
  total_steps :: int
  next_step_required :: bool
  findings :: string
  files_checked :: "string list option"
  relevant_files :: "string list option"
  relevant_context :: "string list option"
  issues_found :: "pydict list option"
  confidence :: string
  backtrack_from_step :: "int option"

record TextAnalyzeRequest = workflow_request +
  analysis_type :: string
  output_format :: string

record TextRefactorRequest = workflow_request +
  refactor_type :: string
  focus_areas :: "string list option"
  style_guide_examples :: "string list option"

record TextReviewRequest = workflow_request +
  review_type :: string
  severity_filter :: string
  standards :: "string option"

subsection \<open>The step decisions\<close>

text \<open>\<^verbatim>\<open>TextAnalyzeTool\<close>\<close>

definition TextAnalyzeTool_should_embed_files_as_context :: "TextAnalyzeRequest \<Rightarrow> bool" where
  "TextAnalyzeTool_should_embed_files_as_context request =
     (if step_number request = 1 then True
      else if truthy (relevant_files request) then True
      else if analysis_type request \<in> set [''structure'', ''themes'', ''arguments''] then True
      else False)"

definition TextAnalyzeTool_get_required_actions :: "TextAnalyzeRequest \<Rightarrow> string list" where
  "TextAnalyzeTool_get_required_actions request =
     (if step_number request = 1 then
        [] @ [''Use Read tool to examine the text document(s) specified in relevant_files'',
              ''Understand the document structure and main content areas'',
              ''Identify key themes, arguments, and organizational patterns'',
              ''Map out the text structure and content flow'']
      else
        [] @ [''Continue investigating specific aspects identified in previous steps'',
              ''Use Read tool to examine additional sections or related documents'',
              ''Gather concrete evidence to support your analysis'',
              ''Build on previous findings with new insights''])"

definition TextAnalyzeTool_should_call_expert_analysis :: "TextAnalyzeRequest \<Rightarrow> bool" where
  "TextAnalyzeTool_should_call_expert_analysis request = (confidence request \<noteq> ''certain'')"

text \<open>\<^verbatim>\<open>TextRefactorTool\<close>\<close>

definition TextRefactorTool_should_embed_files_as_context :: "TextRefactorRequest \<Rightarrow> bool" where
  "TextRefactorTool_should_embed_files_as_context request =
     (if step_number request = 1 then True
      else if truthy (relevant_files request) then True
      else if truthy (style_guide_examples request) then True
      else if refactor_type request \<in> set [''organization'', ''clarity'', ''arguments''] then True
      else False)"

definition TextRefactorTool_get_required_actions :: "TextRefactorRequest \<Rightarrow> string list" where
  "TextRefactorTool_get_required_actions request =
     (if step_number request = 1 then
        [] @ [''Use Read tool to examine the text document(s) specified in relevant_files'',
              ''Analyze document organization and structure patterns'',
              ''Identify areas needing refactoring and improvement'',
              ''Map out potential reorganization strategies'']
      else
        [] @ [''Continue investigating specific refactoring opportunities identified in previous steps'',
              ''Use Read tool to examine problematic sections or style examples'',
              ''Gather concrete evidence for refactoring recommendations'',
              ''Build comprehensive improvement strategy''])"

definition TextRefactorTool_should_call_expert_analysis :: "TextRefactorRequest \<Rightarrow> bool" where
  "TextRefactorTool_should_call_expert_analysis request = (confidence request \<noteq> ''complete'')"

text \<open>\<^verbatim>\<open>TextReviewTool\<close>\<close>

definition TextReviewTool_should_embed_files_as_context :: "TextReviewRequest \<Rightarrow> bool" where
  "TextReviewTool_should_embed_files_as_context request =
     (if step_number request = 1 then True
      else if truthy (relevant_files request) then True
      else if review_type request \<in> set [''comprehensive'', ''content'', ''structure''] then True
      else False)"

definition TextReviewTool_get_required_actions :: "TextReviewRequest \<Rightarrow> string list" where
  "TextReviewTool_get_required_actions request =
     (if step_number request = 1 then
        [] @ [''Use Read tool to examine the text document(s) specified in relevant_files'',
              ''Assess overall document quality and structure'',
              ''Identify potential issues and improvement opportunities'',
              ''Evaluate argument strength and clarity'']
      else
        [] @ [''Continue investigating specific quality aspects identified in previous steps'',
              ''Use Read tool to examine problem areas or related sections'',
              ''Gather concrete evidence for review assessments'',
              ''Build comprehensive quality evaluation''])"

definition TextReviewTool_should_call_expert_analysis :: "TextReviewRequest \<Rightarrow> bool" where
  "TextReviewTool_should_call_expert_analysis request = (confidence request \<noteq> ''certain'')"

subsection \<open>Validation of the tool arguments\<close>

text \<open>
  A request is built by pydantic from the arguments of the tool call. For each field the
  call either leaves the key out, gives \<^verbatim>\<open>null\<close>, or gives a value; values are taken to be
  of the field's JSON type, so the coercions pydantic applies to values of another type
  are outside the model. The field declarations of the source fix the rest:
  \<^item> \<^verbatim>\<open>Field(...)\<close> makes a field required;
  \<^item> \<^verbatim>\<open>ge=1\<close> rejects an integer below 1;
  \<^item> \<^verbatim>\<open>Literal[...]\<close> accepts exactly the listed strings, and the default when the key
    is left out;
  \<^item> \<^verbatim>\<open>Optional[...]\<close> accepts \<^verbatim>\<open>null\<close>, and the default (which pydantic does not
    validate) is taken when the key is left out.
  Pydantic checks every field and raises one \<^verbatim>\<open>ValidationError\<close> listing, for each failing
  field, its name and the kind of the violated constraint; the kinds below carry
  pydantic's names.

  The request classes derive from \<^verbatim>\<open>WorkflowRequest\<close>, whose source is not at hand. Every
  field modelled here is declared again in the class bodies of the three tools, and it is
  these declarations that are embedded.
\<close>

datatype 'a arg = Absent | Null | Given 'a

datatype constraint =
    Missing
  | String_type
  | Int_type
  | Bool_type
  | Greater_than_equal int
  | Literal_error "string list"

type_synonym ValidationError = "(string \<times> constraint) list"

fun required :: "constraint \<Rightarrow> 'a arg \<Rightarrow> constraint + 'a" where
  "required ty Absent = Inl Missing"
| "required ty Null = Inl ty"
| "required ty (Given v) = Inr v"

fun required_int_ge :: "int \<Rightarrow> int arg \<Rightarrow> constraint + int" where
  "required_int_ge lo Absent = Inl Missing"
| "required_int_ge lo Null = Inl Int_type"
| "required_int_ge lo (Given v) = (if lo \<le> v then Inr v else Inl (Greater_than_equal lo))"

fun optional_int_ge :: "int \<Rightarrow> int arg \<Rightarrow> constraint + int option" where
  "optional_int_ge lo Absent = Inr None"
| "optional_int_ge lo Null = Inr None"
| "optional_int_ge lo (Given v) = (if lo \<le> v then Inr (Some v) else Inl (Greater_than_equal lo))"

fun literal :: "string list \<Rightarrow> string \<Rightarrow> string arg \<Rightarrow> constraint + string" where
  "literal vocabulary dflt Absent = Inr dflt"
| "literal vocabulary dflt Null = Inl (Literal_error vocabulary)"
| "literal vocabulary dflt (Given v) =
     (if v \<in> set vocabulary then Inr v else Inl (Literal_error vocabulary))"

fun optional :: "'a option \<Rightarrow> 'a arg \<Rightarrow> 'a option" where
  "optional dflt Absent = dflt"
| "optional dflt Null = None"
| "optional dflt (Given v) = Some v"

fun field_errors :: "string \<Rightarrow> constraint + 'a \<Rightarrow> ValidationError" where
  "field_errors name (Inl c) = [(name, c)]"
| "field_errors name (Inr v) = []"

text \<open>The arguments of a call, field by field.\<close>

record workflow_args =
  arg_step :: "string arg"
  arg_step_number :: "int arg"
  arg_total_steps :: "int arg"
  arg_next_step_required :: "bool arg"
  arg_findings :: "string arg"
  arg_files_checked :: "string list arg"
  arg_relevant_files :: "string list arg"
  arg_relevant_context :: "string list arg"
  arg_issues_found :: "pydict list arg"
  arg_confidence :: "string arg"
  arg_backtrack_from_step :: "int arg"

record TextAnalyzeArgs = workflow_args +
  arg_analysis_type :: "string arg"
  arg_output_format :: "string arg"

record TextRefactorArgs = workflow_args +
  arg_refactor_type :: "string arg"
  arg_focus_areas :: "string list arg"
  arg_style_guide_examples :: "string list arg"

record TextReviewArgs = workflow_args +
  arg_review_type :: "string arg"
  arg_severity_filter :: "string arg"
  arg_standards :: "string arg"

text \<open>The closed vocabularies, as the \<^verbatim>\<open>Literal[...]\<close> annotations list them.\<close>

definition analysis_types :: "string list" where
  "analysis_types = [''structure'', ''themes'', ''arguments'', ''style'', ''readability'', ''general'']"

definition output_formats :: "string list" where
  "output_formats = [''summary'', ''detailed'', ''actionable'']"

definition refactor_types :: "string list" where
  "refactor_types = [''organization'', ''clarity'', ''arguments'', ''style'', ''flow'']"

definition review_types :: "string list" where
  "review_types = [''comprehensive'', ''content'', ''structure'', ''clarity'', ''style'']"

definition severity_filters :: "string list" where
  "severity_filters = [''critical'', ''high'', ''medium'', ''low'', ''all'']"

definition confidence_levels :: "string list" where
  "confidence_levels =
     [''exploring'', ''low'', ''medium'', ''high'', ''very_high'', ''almost_certain'', ''certain'']"

definition refactor_confidence_levels :: "string list" where
  "refactor_confidence_levels = [''exploring'', ''incomplete'', ''partial'', ''complete'']"

text \<open>\<^verbatim>\<open>TextAnalyzeRequest\<close>: the errors of every field in the order of the class body, and
  the request when there is none.\<close>

definition TextAnalyzeRequest_errors :: "TextAnalyzeArgs \<Rightarrow> ValidationError" where
  "TextAnalyzeRequest_errors a =
     field_errors ''step'' (required String_type (arg_step a))
   @ field_errors ''step_number'' (required_int_ge 1 (arg_step_number a))
   @ field_errors ''total_steps'' (required_int_ge 1 (arg_total_steps a))
   @ field_errors ''next_step_required'' (required Bool_type (arg_next_step_required a))
   @ field_errors ''findings'' (required String_type (arg_findings a))
   @ field_errors ''analysis_type'' (literal analysis_types ''general'' (arg_analysis_type a))
   @ field_errors ''output_format'' (literal output_formats ''detailed'' (arg_output_format a))
   @ field_errors ''confidence'' (literal confidence_levels ''exploring'' (arg_confidence a))
   @ field_errors ''backtrack_from_step'' (optional_int_ge 1 (arg_backtrack_from_step a))"

definition TextAnalyzeRequest_validate :: "TextAnalyzeArgs \<Rightarrow> ValidationError + TextAnalyzeRequest" where
  "TextAnalyzeRequest_validate a =
     (if TextAnalyzeRequest_errors a \<noteq> [] then Inl (TextAnalyzeRequest_errors a)
      else Inr \<lparr>
        step = projr (required String_type (arg_step a)),
        step_number = projr (required_int_ge 1 (arg_step_number a)),
        total_steps = projr (required_int_ge 1 (arg_total_steps a)),
        next_step_required = projr (required Bool_type (arg_next_step_required a)),
        findings = projr (required String_type (arg_findings a)),
        files_checked = optional (Some []) (arg_files_checked a),
        relevant_files = optional (Some []) (arg_relevant_files a),
        relevant_context = optional (Some []) (arg_relevant_context a),
        issues_found = optional (Some []) (arg_issues_found a),
        confidence = projr (literal confidence_levels ''exploring'' (arg_confidence a)),
        backtrack_from_step = projr (optional_int_ge 1 (arg_backtrack_from_step a)),
        analysis_type = projr (literal analysis_types ''general'' (arg_analysis_type a)),
        output_format = projr (literal output_formats ''detailed'' (arg_output_format a)) \<rparr>)"

text \<open>\<^verbatim>\<open>TextRefactorRequest\<close>\<close>

definition TextRefactorRequest_errors :: "TextRefactorArgs \<Rightarrow> ValidationError" where
  "TextRefactorRequest_errors a =
     field_errors ''step'' (required String_type (arg_step a))
   @ field_errors ''step_number'' (required_int_ge 1 (arg_step_number a))
   @ field_errors ''total_steps'' (required_int_ge 1 (arg_total_steps a))
   @ field_errors ''next_step_required'' (required Bool_type (arg_next_step_required a))
   @ field_errors ''findings'' (required String_type (arg_findings a))
   @ field_errors ''refactor_type'' (literal refactor_types ''organization'' (arg_refactor_type a))
   @ field_errors ''confidence''
       (literal refactor_confidence_levels ''incomplete'' (arg_confidence a))
   @ field_errors ''backtrack_from_step'' (optional_int_ge 1 (arg_backtrack_from_step a))"

definition TextRefactorRequest_validate ::
  "TextRefactorArgs \<Rightarrow> ValidationError + TextRefactorRequest" where
  "TextRefactorRequest_validate a =
     (if TextRefactorRequest_errors a \<noteq> [] then Inl (TextRefactorRequest_errors a)
      else Inr \<lparr>
        step = projr (required String_type (arg_step a)),
        step_number = projr (required_int_ge 1 (arg_step_number a)),
        total_steps = projr (required_int_ge 1 (arg_total_steps a)),
        next_step_required = projr (required Bool_type (arg_next_step_required a)),
        findings = projr (required String_type (arg_findings a)),
        files_checked = optional (Some []) (arg_files_checked a),
        relevant_files = optional (Some []) (arg_relevant_files a),
        relevant_context = optional (Some []) (arg_relevant_context a),
        issues_found = optional (Some []) (arg_issues_found a),
        confidence = projr (literal refactor_confidence_levels ''incomplete'' (arg_confidence a)),
        backtrack_from_step = projr (optional_int_ge 1 (arg_backtrack_from_step a)),
        refactor_type = projr (literal refactor_types ''organization'' (arg_refactor_type a)),
        focus_areas = optional (Some []) (arg_focus_areas a),
        style_guide_examples = optional (Some []) (arg_style_guide_examples a) \<rparr>)"

text \<open>\<^verbatim>\<open>TextReviewRequest\<close>\<close>

definition TextReviewRequest_errors :: "TextReviewArgs \<Rightarrow> ValidationError" where
  "TextReviewRequest_errors a =
     field_errors ''step'' (required String_type (arg_step a))
   @ field_errors ''step_number'' (required_int_ge 1 (arg_step_number a))
   @ field_errors ''total_steps'' (required_int_ge 1 (arg_total_steps a))
   @ field_errors ''next_step_required'' (required Bool_type (arg_next_step_required a))
   @ field_errors ''findings'' (required String_type (arg_findings a))
   @ field_errors ''review_type'' (literal review_types ''comprehensive'' (arg_review_type a))
   @ field_errors ''severity_filter'' (literal severity_filters ''all'' (arg_severity_filter a))
   @ field_errors ''confidence'' (literal confidence_levels ''exploring'' (arg_confidence a))
   @ field_errors ''backtrack_from_step'' (optional_int_ge 1 (arg_backtrack_from_step a))"

definition TextReviewRequest_validate :: "TextReviewArgs \<Rightarrow> ValidationError + TextReviewRequest" where
  "TextReviewRequest_validate a =
     (if TextReviewRequest_errors a \<noteq> [] then Inl (TextReviewRequest_errors a)
      else Inr \<lparr>
        step = projr (required String_type (arg_step a)),
        step_number = projr (required_int_ge 1 (arg_step_number a)),
        total_steps = projr (required_int_ge 1 (arg_total_steps a)),
        next_step_required = projr (required Bool_type (arg_next_step_required a)),
        findings = projr (required String_type (arg_findings a)),
        files_checked = optional (Some []) (arg_files_checked a),
        relevant_files = optional (Some []) (arg_relevant_files a),
        relevant_context = optional (Some []) (arg_relevant_context a),
        issues_found = optional (Some []) (arg_issues_found a),
        confidence = projr (literal confidence_levels ''exploring'' (arg_confidence a)),
        backtrack_from_step = projr (optional_int_ge 1 (arg_backtrack_from_step a)),
        review_type = projr (literal review_types ''comprehensive'' (arg_review_type a)),
        severity_filter = projr (literal severity_filters ''all'' (arg_severity_filter a)),
        standards = optional None (arg_standards a) \<rparr>)"

subsection \<open>The expert analysis context\<close>

text \<open>
  Each \<^verbatim>\<open>prepare_expert_analysis_context\<close> builds a list of lines and joins it with line
  feeds. An issue is formatted with \<^verbatim>\<open>f"- {issue}"\<close>, which prints the dictionary with
  \<^verbatim>\<open>repr\<close>; a theme or focus area is a string and is inserted as it is. The optional
  sections are guarded by the truth value of the list, so \<open>the\<close> is only applied to a
  list that is there.
\<close>

definition TextAnalyzeTool_prepare_expert_analysis_context :: "TextAnalyzeRequest \<Rightarrow> string" where
  "TextAnalyzeTool_prepare_expert_analysis_context request =
     (let context_parts =
            [''TEXT ANALYSIS REQUEST - '' @ str_upper (analysis_type request),
             ''Analysis confidence: '' @ confidence request,
             ''Step '' @ str_int (step_number request) @ '' of '' @ str_int (total_steps request),
             [],
             ''ANALYSIS FINDINGS:'',
             findings request];
          context_parts =
            (if truthy (issues_found request)
             then context_parts @
                    [[], ''ISSUES IDENTIFIED:'']
                    @ map (\<lambda>issue. ''- '' @ repr (PDict issue)) (the (issues_found request))
             else context_parts);
          context_parts =
            (if truthy (relevant_context request)
             then context_parts @
                    [[], ''KEY THEMES/ARGUMENTS:'']
                    @ map (\<lambda>context. ''- '' @ context) (the (relevant_context request))
             else context_parts)
      in str_join [CHR 0x0A] context_parts)"

definition TextRefactorTool_prepare_expert_analysis_context :: "TextRefactorRequest \<Rightarrow> string" where
  "TextRefactorTool_prepare_expert_analysis_context request =
     (let context_parts =
            [''TEXT REFACTORING REQUEST - '' @ str_upper (refactor_type request),
             ''Refactoring confidence: '' @ confidence request,
             ''Step '' @ str_int (step_number request) @ '' of '' @ str_int (total_steps request),
             [],
             ''REFACTORING FINDINGS:'',
             findings request];
          context_parts =
            (if truthy (issues_found request)
             then context_parts @
                    [[], ''REFACTORING OPPORTUNITIES:'']
                    @ map (\<lambda>issue. ''- '' @ repr (PDict issue)) (the (issues_found request))
             else context_parts);
          context_parts =
            (if truthy (focus_areas request)
             then context_parts @
                    [[], ''FOCUS AREAS:'']
                    @ map (\<lambda>area. ''- '' @ area) (the (focus_areas request))
             else context_parts)
      in str_join [CHR 0x0A] context_parts)"

definition TextReviewTool_prepare_expert_analysis_context :: "TextReviewRequest \<Rightarrow> string" where
  "TextReviewTool_prepare_expert_analysis_context request =
     (let context_parts =
            [''TEXT REVIEW REQUEST - '' @ str_upper (review_type request),
             ''Review confidence: '' @ confidence request,
             ''Step '' @ str_int (step_number request) @ '' of '' @ str_int (total_steps request),
             [],
             ''REVIEW FINDINGS:'',
             findings request];
          context_parts =
            (if truthy (issues_found request)
             then context_parts @
                    [[], ''ISSUES IDENTIFIED:'']
                    @ map (\<lambda>issue. ''- '' @ repr (PDict issue)) (the (issues_found request))
             else context_parts)
      in str_join [CHR 0x0A] context_parts)"

subsection \<open>Lines of a text\<close>

text \<open>\<^verbatim>\<open>s.split("\n")\<close>: the lines of a text, the line feeds removed.\<close>

fun split_lines :: "string \<Rightarrow> string list" where
  "split_lines [] = [[]]"
| "split_lines (c # cs) =
     (if c = CHR 0x0A then [] # split_lines cs
      else (case split_lines cs of [] \<Rightarrow> [[c]] | l # ls \<Rightarrow> (c # l) # ls))"

subsection \<open>Example calls\<close>

text \<open>One call per tool, with the request pydantic builds from it.\<close>

definition analyze_args_example :: TextAnalyzeArgs where
  "analyze_args_example =
     \<lparr> arg_step = Given ''Map the structure of the report'',
       arg_step_number = Given 1,
       arg_total_steps = Given 3,
       arg_next_step_required = Given True,
       arg_findings = Given ''Three sections, no summary'',
       arg_files_checked = Absent,
       arg_relevant_files = Given [''/doc.md''],
       arg_relevant_context = Absent,
       arg_issues_found = Absent,
       arg_confidence = Given ''exploring'',
       arg_backtrack_from_step = Absent,
       arg_analysis_type = Absent,
       arg_output_format = Absent \<rparr>"

definition analyze_request_example :: TextAnalyzeRequest where
  "analyze_request_example =
     \<lparr> step = ''Map the structure of the report'',
       step_number = 1,
       total_steps = 3,
       next_step_required = True,
       findings = ''Three sections, no summary'',
       files_checked = Some [],
       relevant_files = Some [''/doc.md''],
       relevant_context = Some [],
       issues_found = Some [],
       confidence = ''exploring'',
       backtrack_from_step = None,
       analysis_type = ''general'',
       output_format = ''detailed'' \<rparr>"

definition refactor_args_example :: TextRefactorArgs where
  "refactor_args_example =
     \<lparr> arg_step = Given ''Look for weak transitions'',
       arg_step_number = Given 2,
       arg_total_steps = Given 4,
       arg_next_step_required = Given True,
       arg_findings = Given ''Section 2 repeats section 1'',
       arg_files_checked = Null,
       arg_relevant_files = Absent,
       arg_relevant_context = Absent,
       arg_issues_found = Absent,
       arg_confidence = Given ''partial'',
       arg_backtrack_from_step = Absent,
       arg_refactor_type = Absent,
       arg_focus_areas = Absent,
       arg_style_guide_examples = Absent \<rparr>"

definition refactor_request_example :: TextRefactorRequest where
  "refactor_request_example =
     \<lparr> step = ''Look for weak transitions'',
       step_number = 2,
       total_steps = 4,
       next_step_required = True,
       findings = ''Section 2 repeats section 1'',
       files_checked = None,
       relevant_files = Some [],
       relevant_context = Some [],
       issues_found = Some [],
       confidence = ''partial'',
       backtrack_from_step = None,
       refactor_type = ''organization'',
       focus_areas = Some [],
       style_guide_examples = Some [] \<rparr>"

definition review_args_example :: TextReviewArgs where
  "review_args_example =
     \<lparr> arg_step = Given ''Check the argument of the conclusion'',
       arg_step_number = Given 3,
       arg_total_steps = Given 3,
       arg_next_step_required = Given False,
       arg_findings = Given ''The conclusion is sound'',
       arg_files_checked = Absent,
       arg_relevant_files = Absent,
       arg_relevant_context = Absent,
       arg_issues_found = Absent,
       arg_confidence = Given ''certain'',
       arg_backtrack_from_step = Absent,
       arg_review_type = Absent,
       arg_severity_filter = Absent,
       arg_standards = Absent \<rparr>"

definition review_request_example :: TextReviewRequest where
  "review_request_example =
     \<lparr> step = ''Check the argument of the conclusion'',
       step_number = 3,
       total_steps = 3,
       next_step_required = False,
       findings = ''The conclusion is sound'',
       files_checked = Some [],
       relevant_files = Some [],
       relevant_context = Some [],
       issues_found = Some [],
       confidence = ''certain'',
       backtrack_from_step = None,
       review_type = ''comprehensive'',
       severity_filter = ''all'',
       standards = None \<rparr>"

text \<open>Two entries for \<^verbatim>\<open>issues_found\<close>; the first description holds a line feed.\<close>

definition issues_example :: "pydict list" where
  "issues_example =
     [[(''severity'', PStr ''high''), (''description'', PStr ''Too long\<newline>and vague'')],
      [(''severity'', PStr ''low''), (''line'', PInt 14)]]"

section \<open>Properties\<close>

subsection \<open>Printed values hold no line feed\<close>

lemma split_lines_not_Nil: "split_lines s \<noteq> []"
  by (induction s) (auto split: list.splits)

lemma split_lines_no_newline: "CHR 0x0A \<notin> set s \<Longrightarrow> split_lines s = [s]"
  by (induction s) auto

lemma split_lines_append_newline:
  "split_lines (a @ CHR 0x0A # b) = split_lines a @ split_lines b"
  by (induction a) (auto simp: split_lines_not_Nil split: list.splits)

lemma split_lines_join:
  "xs \<noteq> [] \<Longrightarrow> split_lines (str_join [CHR 0x0A] xs) = concat (map split_lines xs)"
  by (induction xs rule: induct_list012) (simp_all add: split_lines_append_newline)

lemma set_str_join: "set (str_join sep xs) \<subseteq> set sep \<union> \<Union> (set ` set xs)"
  by (induction sep xs rule: str_join.induct) auto

lemma digit_char_no_newline: "digit_char n \<noteq> CHR 0x0A" "CHR 0x0A \<noteq> digit_char n"
proof -
  have "digit_char n \<in> set ''0123456789abcdef''"
    unfolding digit_char_def by (rule nth_mem) simp
  then show "digit_char n \<noteq> CHR 0x0A" "CHR 0x0A \<noteq> digit_char n" by auto
qed

lemma str_nat_no_newline: "CHR 0x0A \<notin> set (str_nat n)"
proof (induction n rule: str_nat.induct)
  case (1 n)
  show ?case
    by (subst str_nat.simps) (use 1 in \<open>auto simp: digit_char_no_newline\<close>)
qed

lemma str_int_no_newline: "CHR 0x0A \<notin> set (str_int i)"
  by (simp add: str_int_def str_nat_no_newline)

lemma repr_char_no_newline: "q \<noteq> CHR 0x0A \<Longrightarrow> CHR 0x0A \<notin> set (repr_char q c)"
  by (auto simp: repr_char_def digit_char_no_newline)

lemma repr_str_no_newline: "CHR 0x0A \<notin> set (repr_str s)"
  by (auto simp: repr_str_def Let_def repr_char_no_newline)

lemma repr_no_newline: "CHR 0x0A \<notin> set (repr v)"
proof (induction v)
  case (PList xs)
  then show ?case using set_str_join[of "'', ''" "map repr xs"] by auto
next
  case (PDict kvs)
  have "CHR 0x0A \<notin> set (str_join '', '' (map (\<lambda>(k, s). repr_str k @ '': '' @ s) (map (map_prod id repr) kvs)))"
    using set_str_join[of "'', ''" "map (\<lambda>(k, s). repr_str k @ '': '' @ s) (map (map_prod id repr) kvs)"] PDict
    by (fastforce simp: repr_str_no_newline)
  then show ?case by simp
qed (auto simp: str_int_no_newline repr_str_no_newline)

subsection \<open>Accepted requests\<close>

lemmas vocabulary_defs =
  analysis_types_def output_formats_def refactor_types_def review_types_def
  severity_filters_def confidence_levels_def refactor_confidence_levels_def

lemma analyze_example_valid:
  "TextAnalyzeRequest_validate analyze_args_example = Inr analyze_request_example"
  by (simp add: TextAnalyzeRequest_validate_def TextAnalyzeRequest_errors_def
      analyze_args_example_def analyze_request_example_def vocabulary_defs)

lemma refactor_example_valid:
  "TextRefactorRequest_validate refactor_args_example = Inr refactor_request_example"
  by (simp add: TextRefactorRequest_validate_def TextRefactorRequest_errors_def
      refactor_args_example_def refactor_request_example_def vocabulary_defs)

lemma review_example_valid:
  "TextReviewRequest_validate review_args_example = Inr review_request_example"
  by (simp add: TextReviewRequest_validate_def TextReviewRequest_errors_def
      review_args_example_def review_request_example_def vocabulary_defs)

lemma field_errors_Nil_iff: "field_errors name v = [] \<longleftrightarrow> \<not> isl v"
  by (cases v) simp_all

lemma required_int_ge_Inr: "\<not> isl (required_int_ge lo x) \<Longrightarrow> lo \<le> projr (required_int_ge lo x)"
  by (cases x) (auto split: if_splits)

lemma literal_Inr:
  "\<not> isl (literal vocabulary dflt x) \<Longrightarrow> dflt \<in> set vocabulary \<Longrightarrow>
     projr (literal vocabulary dflt x) \<in> set vocabulary"
  by (cases x) (auto split: if_splits)

lemma analyze_valid_fields:
  assumes "TextAnalyzeRequest_validate a = Inr r"
  shows "1 \<le> step_number r" "1 \<le> total_steps r"
    "confidence r \<in> set confidence_levels" "analysis_type r \<in> set analysis_types"
proof -
  from assms have e: "TextAnalyzeRequest_errors a = []"
    and r: "r = projr (TextAnalyzeRequest_validate a)"
    by (auto simp: TextAnalyzeRequest_validate_def split: if_splits)
  from e have ok: "\<not> isl (required_int_ge 1 (arg_step_number a))"
      "\<not> isl (required_int_ge 1 (arg_total_steps a))"
      "\<not> isl (literal confidence_levels ''exploring'' (arg_confidence a))"
      "\<not> isl (literal analysis_types ''general'' (arg_analysis_type a))"
    by (simp_all add: TextAnalyzeRequest_errors_def field_errors_Nil_iff)
  from assms e have f: "step_number r = projr (required_int_ge 1 (arg_step_number a))"
    "total_steps r = projr (required_int_ge 1 (arg_total_steps a))"
    "confidence r = projr (literal confidence_levels ''exploring'' (arg_confidence a))"
    "analysis_type r = projr (literal analysis_types ''general'' (arg_analysis_type a))"
    by (auto simp: TextAnalyzeRequest_validate_def)
  show "1 \<le> step_number r" "1 \<le> total_steps r"
    using ok f by (simp_all add: required_int_ge_Inr)
  show "confidence r \<in> set confidence_levels"
    unfolding f by (rule literal_Inr[OF ok(3)]) (simp add: confidence_levels_def)
  show "analysis_type r \<in> set analysis_types"
    unfolding f by (rule literal_Inr[OF ok(4)]) (simp add: analysis_types_def)
qed

lemma refactor_valid_fields:
  assumes "TextRefactorRequest_validate a = Inr r"
  shows "1 \<le> step_number r" "1 \<le> total_steps r"
    "confidence r \<in> set refactor_confidence_levels" "refactor_type r \<in> set refactor_types"
proof -
  from assms have e: "TextRefactorRequest_errors a = []"
    by (auto simp: TextRefactorRequest_validate_def split: if_splits)
  from e have ok: "\<not> isl (required_int_ge 1 (arg_step_number a))"
      "\<not> isl (required_int_ge 1 (arg_total_steps a))"
      "\<not> isl (literal refactor_confidence_levels ''incomplete'' (arg_confidence a))"
      "\<not> isl (literal refactor_types ''organization'' (arg_refactor_type a))"
    by (simp_all add: TextRefactorRequest_errors_def field_errors_Nil_iff)
  from assms e have f: "step_number r = projr (required_int_ge 1 (arg_step_number a))"
    "total_steps r = projr (required_int_ge 1 (arg_total_steps a))"
    "confidence r = projr (literal refactor_confidence_levels ''incomplete'' (arg_confidence a))"
    "refactor_type r = projr (literal refactor_types ''organization'' (arg_refactor_type a))"
    by (auto simp: TextRefactorRequest_validate_def)
  show "1 \<le> step_number r" "1 \<le> total_steps r"
    using ok f by (simp_all add: required_int_ge_Inr)
  show "confidence r \<in> set refactor_confidence_levels"
    unfolding f by (rule literal_Inr[OF ok(3)]) (simp add: refactor_confidence_levels_def)
  show "refactor_type r \<in> set refactor_types"
    unfolding f by (rule literal_Inr[OF ok(4)]) (simp add: refactor_types_def)
qed

lemma review_valid_fields:
  assumes "TextReviewRequest_validate a = Inr r"
  shows "1 \<le> step_number r" "1 \<le> total_steps r"
    "confidence r \<in> set confidence_levels" "review_type r \<in> set review_types"
proof -
  from assms have e: "TextReviewRequest_errors a = []"
    by (auto simp: TextReviewRequest_validate_def split: if_splits)
  from e have ok: "\<not> isl (required_int_ge 1 (arg_step_number a))"
      "\<not> isl (required_int_ge 1 (arg_total_steps a))"
      "\<not> isl (literal confidence_levels ''exploring'' (arg_confidence a))"
      "\<not> isl (literal review_types ''comprehensive'' (arg_review_type a))"
    by (simp_all add: TextReviewRequest_errors_def field_errors_Nil_iff)
  from assms e have f: "step_number r = projr (required_int_ge 1 (arg_step_number a))"
    "total_steps r = projr (required_int_ge 1 (arg_total_steps a))"
    "confidence r = projr (literal confidence_levels ''exploring'' (arg_confidence a))"
    "review_type r = projr (literal review_types ''comprehensive'' (arg_review_type a))"
    by (auto simp: TextReviewRequest_validate_def)
  show "1 \<le> step_number r" "1 \<le> total_steps r"
    using ok f by (simp_all add: required_int_ge_Inr)
  show "confidence r \<in> set confidence_levels"
    unfolding f by (rule literal_Inr[OF ok(3)]) (simp add: confidence_levels_def)
  show "review_type r \<in> set review_types"
    unfolding f by (rule literal_Inr[OF ok(4)]) (simp add: review_types_def)
qed

lemma truthy_iff: "truthy xs \<longleftrightarrow> (\<exists>y ys. xs = Some (y # ys))"
  by (cases xs rule: truthy.cases) simp_all

subsection \<open>Decision 3: expert analysis\<close>

text \<open>
  Claim C1. For every request, and so for every valid one, each tool asks for expert
  analysis exactly when the confidence is not the tool's terminal value: \<^verbatim>\<open>certain\<close> for
  Analyze and Review, \<^verbatim>\<open>complete\<close> for Refactor. No other field matters: two requests of
  one tool with the same confidence get the same decision.
\<close>

theorem expert_analysis_iff_confidence_not_terminal:
  "TextAnalyzeTool_should_call_expert_analysis ra = (confidence ra \<noteq> ''certain'')
   \<and> TextReviewTool_should_call_expert_analysis rv = (confidence rv \<noteq> ''certain'')
   \<and> TextRefactorTool_should_call_expert_analysis rf = (confidence rf \<noteq> ''complete'')
   \<and> (confidence ra = confidence ra' \<longrightarrow>
        TextAnalyzeTool_should_call_expert_analysis ra
          = TextAnalyzeTool_should_call_expert_analysis ra')
   \<and> (confidence rv = confidence rv' \<longrightarrow>
        TextReviewTool_should_call_expert_analysis rv
          = TextReviewTool_should_call_expert_analysis rv')
   \<and> (confidence rf = confidence rf' \<longrightarrow>
        TextRefactorTool_should_call_expert_analysis rf
          = TextRefactorTool_should_call_expert_analysis rf')"
  by (simp add: TextAnalyzeTool_should_call_expert_analysis_def
      TextReviewTool_should_call_expert_analysis_def
      TextRefactorTool_should_call_expert_analysis_def)

theorem expert_analysis_iff_confidence_not_terminal_witness:
  "TextAnalyzeTool_should_call_expert_analysis analyze_request_example
   \<and> \<not> TextReviewTool_should_call_expert_analysis review_request_example
   \<and> TextRefactorTool_should_call_expert_analysis refactor_request_example
   \<and> \<not> TextRefactorTool_should_call_expert_analysis
         (refactor_request_example\<lparr>confidence := ''complete''\<rparr>)
   \<and> confidence analyze_request_example
       = confidence (analyze_request_example\<lparr>step_number := 7, findings := ''More''\<rparr>)
   \<and> TextAnalyzeTool_should_call_expert_analysis analyze_request_example
       = TextAnalyzeTool_should_call_expert_analysis
           (analyze_request_example\<lparr>step_number := 7, findings := ''More''\<rparr>)
   \<and> confidence review_request_example
       = confidence (review_request_example\<lparr>step_number := 1, review_type := ''style''\<rparr>)
   \<and> TextReviewTool_should_call_expert_analysis review_request_example
       = TextReviewTool_should_call_expert_analysis
           (review_request_example\<lparr>step_number := 1, review_type := ''style''\<rparr>)
   \<and> confidence refactor_request_example
       = confidence (refactor_request_example\<lparr>issues_found := None\<rparr>)
   \<and> TextRefactorTool_should_call_expert_analysis refactor_request_example
       = TextRefactorTool_should_call_expert_analysis
           (refactor_request_example\<lparr>issues_found := None\<rparr>)"
  using expert_analysis_iff_confidence_not_terminal
    [of analyze_request_example review_request_example refactor_request_example
      "analyze_request_example\<lparr>step_number := 7, findings := ''More''\<rparr>"
      "review_request_example\<lparr>step_number := 1, review_type := ''style''\<rparr>"
      "refactor_request_example\<lparr>issues_found := None\<rparr>"]
    expert_analysis_iff_confidence_not_terminal
    [of analyze_request_example review_request_example
      "refactor_request_example\<lparr>confidence := ''complete''\<rparr>"
      analyze_request_example review_request_example
      "refactor_request_example\<lparr>confidence := ''complete''\<rparr>"]
  by (auto simp: analyze_request_example_def review_request_example_def
      refactor_request_example_def)

subsection \<open>Decision 1: embedding files\<close>

text \<open>
  Claim C2. For every request, and so for every valid one, files are embedded exactly when
  the step number is 1, or \<^verbatim>\<open>relevant_files\<close> is a non-empty list, or the classification
  field is one of the tool's three content-heavy values, or, for Refactor only,
  \<^verbatim>\<open>style_guide_examples\<close> is a non-empty list. In every other case the decision is false.
\<close>

theorem embed_files_iff:
  "TextAnalyzeTool_should_embed_files_as_context ra =
     (step_number ra = 1
      \<or> (\<exists>f fs. relevant_files ra = Some (f # fs))
      \<or> analysis_type ra \<in> {''structure'', ''themes'', ''arguments''})
   \<and> TextRefactorTool_should_embed_files_as_context rf =
     (step_number rf = 1
      \<or> (\<exists>f fs. relevant_files rf = Some (f # fs))
      \<or> refactor_type rf \<in> {''organization'', ''clarity'', ''arguments''}
      \<or> (\<exists>f fs. style_guide_examples rf = Some (f # fs)))
   \<and> TextReviewTool_should_embed_files_as_context rv =
     (step_number rv = 1
      \<or> (\<exists>f fs. relevant_files rv = Some (f # fs))
      \<or> review_type rv \<in> {''comprehensive'', ''content'', ''structure''})"
  unfolding TextAnalyzeTool_should_embed_files_as_context_def
    TextRefactorTool_should_embed_files_as_context_def
    TextReviewTool_should_embed_files_as_context_def truthy_iff
  by auto

theorem embed_files_iff_witness:
  "TextAnalyzeTool_should_embed_files_as_context analyze_request_example
   \<and> \<not> TextAnalyzeTool_should_embed_files_as_context
         (analyze_request_example\<lparr>step_number := 2, relevant_files := Some []\<rparr>)
   \<and> TextRefactorTool_should_embed_files_as_context
         (refactor_request_example\<lparr>refactor_type := ''flow'',
            style_guide_examples := Some [''/style.md'']\<rparr>)
   \<and> \<not> TextRefactorTool_should_embed_files_as_context
         (refactor_request_example\<lparr>refactor_type := ''flow''\<rparr>)
   \<and> TextReviewTool_should_embed_files_as_context review_request_example
   \<and> \<not> TextReviewTool_should_embed_files_as_context
         (review_request_example\<lparr>review_type := ''clarity'', relevant_files := None\<rparr>)"
  using embed_files_iff [of analyze_request_example
      "refactor_request_example\<lparr>refactor_type := ''flow'',
         style_guide_examples := Some [''/style.md'']\<rparr>"
      review_request_example]
    embed_files_iff
      [of "analyze_request_example\<lparr>step_number := 2, relevant_files := Some []\<rparr>"
        "refactor_request_example\<lparr>refactor_type := ''flow''\<rparr>"
        "review_request_example\<lparr>review_type := ''clarity'', relevant_files := None\<rparr>"]
  by (simp add: analyze_request_example_def review_request_example_def
      refactor_request_example_def)

subsection \<open>Decision 2: required actions\<close>

text \<open>
  Claim C7. For every request a tool's validation accepts, the required actions are one
  of two fixed lists of four strings: the tool's step-1 list when the step number is 1,
  and its later-step list when the step number is greater than 1. An accepted request has
  one of these two step numbers, and no other field enters the result.
\<close>

theorem required_actions_by_step_number:
  "(\<forall>a r. TextAnalyzeRequest_validate a = Inr r \<longrightarrow>
      (step_number r = 1 \<and> TextAnalyzeTool_get_required_actions r =
         [''Use Read tool to examine the text document(s) specified in relevant_files'',
          ''Understand the document structure and main content areas'',
          ''Identify key themes, arguments, and organizational patterns'',
          ''Map out the text structure and content flow''])
      \<or> (1 < step_number r \<and> TextAnalyzeTool_get_required_actions r =
         [''Continue investigating specific aspects identified in previous steps'',
          ''Use Read tool to examine additional sections or related documents'',
          ''Gather concrete evidence to support your analysis'',
          ''Build on previous findings with new insights'']))
   \<and> (\<forall>a r. TextRefactorRequest_validate a = Inr r \<longrightarrow>
      (step_number r = 1 \<and> TextRefactorTool_get_required_actions r =
         [''Use Read tool to examine the text document(s) specified in relevant_files'',
          ''Analyze document organization and structure patterns'',
          ''Identify areas needing refactoring and improvement'',
          ''Map out potential reorganization strategies''])
      \<or> (1 < step_number r \<and> TextRefactorTool_get_required_actions r =
         [''Continue investigating specific refactoring opportunities identified in previous steps'',
          ''Use Read tool to examine problematic sections or style examples'',
          ''Gather concrete evidence for refactoring recommendations'',
          ''Build comprehensive improvement strategy'']))
   \<and> (\<forall>a r. TextReviewRequest_validate a = Inr r \<longrightarrow>
      (step_number r = 1 \<and> TextReviewTool_get_required_actions r =
         [''Use Read tool to examine the text document(s) specified in relevant_files'',
          ''Assess overall document quality and structure'',
          ''Identify potential issues and improvement opportunities'',
          ''Evaluate argument strength and clarity''])
      \<or> (1 < step_number r \<and> TextReviewTool_get_required_actions r =
         [''Continue investigating specific quality aspects identified in previous steps'',
          ''Use Read tool to examine problem areas or related sections'',
          ''Gather concrete evidence for review assessments'',
          ''Build comprehensive quality evaluation'']))"
proof (intro conjI allI impI)
  fix a r assume "TextAnalyzeRequest_validate a = Inr r"
  then have "1 \<le> step_number r" by (rule analyze_valid_fields)
  then have "step_number r = 1 \<or> 1 < step_number r" by arith
  then show "(step_number r = 1 \<and> TextAnalyzeTool_get_required_actions r =
         [''Use Read tool to examine the text document(s) specified in relevant_files'',
          ''Understand the document structure and main content areas'',
          ''Identify key themes, arguments, and organizational patterns'',
          ''Map out the text structure and content flow''])
      \<or> (1 < step_number r \<and> TextAnalyzeTool_get_required_actions r =
         [''Continue investigating specific aspects identified in previous steps'',
          ''Use Read tool to examine additional sections or related documents'',
          ''Gather concrete evidence to support your analysis'',
          ''Build on previous findings with new insights''])"
    unfolding TextAnalyzeTool_get_required_actions_def by auto
next
  fix a r assume "TextRefactorRequest_validate a = Inr r"
  then have "1 \<le> step_number r" by (rule refactor_valid_fields)
  then have "step_number r = 1 \<or> 1 < step_number r" by arith
  then show "(step_number r = 1 \<and> TextRefactorTool_get_required_actions r =
         [''Use Read tool to examine the text document(s) specified in relevant_files'',
          ''Analyze document organization and structure patterns'',
          ''Identify areas needing refactoring and improvement'',
          ''Map out potential reorganization strategies''])
      \<or> (1 < step_number r \<and> TextRefactorTool_get_required_actions r =
         [''Continue investigating specific refactoring opportunities identified in previous steps'',
          ''Use Read tool to examine problematic sections or style examples'',
          ''Gather concrete evidence for refactoring recommendations'',
          ''Build comprehensive improvement strategy''])"
    unfolding TextRefactorTool_get_required_actions_def by auto
next
  fix a r assume "TextReviewRequest_validate a = Inr r"
  then have "1 \<le> step_number r" by (rule review_valid_fields)
  then have "step_number r = 1 \<or> 1 < step_number r" by arith
  then show "(step_number r = 1 \<and> TextReviewTool_get_required_actions r =
         [''Use Read tool to examine the text document(s) specified in relevant_files'',
          ''Assess overall document quality and structure'',
          ''Identify potential issues and improvement opportunities'',
          ''Evaluate argument strength and clarity''])
      \<or> (1 < step_number r \<and> TextReviewTool_get_required_actions r =
         [''Continue investigating specific quality aspects identified in previous steps'',
          ''Use Read tool to examine problem areas or related sections'',
          ''Gather concrete evidence for review assessments'',
          ''Build comprehensive quality evaluation''])"
    unfolding TextReviewTool_get_required_actions_def by auto
qed

theorem required_actions_by_step_number_witness:
  "TextAnalyzeRequest_validate analyze_args_example = Inr analyze_request_example
   \<and> step_number analyze_request_example = 1
   \<and> TextAnalyzeTool_get_required_actions analyze_request_example =
         [''Use Read tool to examine the text document(s) specified in relevant_files'',
          ''Understand the document structure and main content areas'',
          ''Identify key themes, arguments, and organizational patterns'',
          ''Map out the text structure and content flow'']
   \<and> TextRefactorRequest_validate refactor_args_example = Inr refactor_request_example
   \<and> 1 < step_number refactor_request_example
   \<and> TextRefactorTool_get_required_actions refactor_request_example =
         [''Continue investigating specific refactoring opportunities identified in previous steps'',
          ''Use Read tool to examine problematic sections or style examples'',
          ''Gather concrete evidence for refactoring recommendations'',
          ''Build comprehensive improvement strategy'']
   \<and> TextReviewRequest_validate review_args_example = Inr review_request_example
   \<and> 1 < step_number review_request_example
   \<and> TextReviewTool_get_required_actions review_request_example =
         [''Continue investigating specific quality aspects identified in previous steps'',
          ''Use Read tool to examine problem areas or related sections'',
          ''Gather concrete evidence for review assessments'',
          ''Build comprehensive quality evaluation'']"
proof -
  note t = required_actions_by_step_number
  have a: "step_number analyze_request_example = 1"
    and f: "1 < step_number refactor_request_example"
    and v: "1 < step_number review_request_example"
    by (simp_all add: analyze_request_example_def refactor_request_example_def
        review_request_example_def)
  from t analyze_example_valid a
  have "TextAnalyzeTool_get_required_actions analyze_request_example =
         [''Use Read tool to examine the text document(s) specified in relevant_files'',
          ''Understand the document structure and main content areas'',
          ''Identify key themes, arguments, and organizational patterns'',
          ''Map out the text structure and content flow'']"
    by fastforce
  moreover from t refactor_example_valid f
  have "TextRefactorTool_get_required_actions refactor_request_example =
         [''Continue investigating specific refactoring opportunities identified in previous steps'',
          ''Use Read tool to examine problematic sections or style examples'',
          ''Gather concrete evidence for refactoring recommendations'',
          ''Build comprehensive improvement strategy'']"
    by fastforce
  moreover from t review_example_valid v
  have "TextReviewTool_get_required_actions review_request_example =
         [''Continue investigating specific quality aspects identified in previous steps'',
          ''Use Read tool to examine problem areas or related sections'',
          ''Gather concrete evidence for review assessments'',
          ''Build comprehensive quality evaluation'']"
    by fastforce
  ultimately show ?thesis
    using analyze_example_valid refactor_example_valid review_example_valid a f v by simp
qed

subsection \<open>Validation: required fields and lower bounds\<close>

text \<open>
  Claim C3. For each of the three tools, a call that leaves \<^verbatim>\<open>findings\<close> out is rejected
  with an error naming \<^verbatim>\<open>findings\<close> and the constraint \<^verbatim>\<open>missing\<close>, and a call whose
  \<^verbatim>\<open>step_number\<close> is 0 is rejected with an error naming \<^verbatim>\<open>step_number\<close> and the constraint
  \<^verbatim>\<open>greater_than_equal\<close> 1. Rejection is of the whole call: validation returns the errors
  and no request, so there is nothing a decision could be derived from; and a call is
  rejected exactly when some field has an error.
\<close>

theorem missing_findings_or_zero_step_number_rejected:
  "(\<forall>a. arg_findings a = Absent \<longrightarrow>
        TextAnalyzeRequest_validate a = Inl (TextAnalyzeRequest_errors a)
        \<and> (''findings'', Missing) \<in> set (TextAnalyzeRequest_errors a))
   \<and> (\<forall>a. arg_step_number a = Given 0 \<longrightarrow>
        TextAnalyzeRequest_validate a = Inl (TextAnalyzeRequest_errors a)
        \<and> (''step_number'', Greater_than_equal 1) \<in> set (TextAnalyzeRequest_errors a))
   \<and> (\<forall>a. arg_findings a = Absent \<longrightarrow>
        TextRefactorRequest_validate a = Inl (TextRefactorRequest_errors a)
        \<and> (''findings'', Missing) \<in> set (TextRefactorRequest_errors a))
   \<and> (\<forall>a. arg_step_number a = Given 0 \<longrightarrow>
        TextRefactorRequest_validate a = Inl (TextRefactorRequest_errors a)
        \<and> (''step_number'', Greater_than_equal 1) \<in> set (TextRefactorRequest_errors a))
   \<and> (\<forall>a. arg_findings a = Absent \<longrightarrow>
        TextReviewRequest_validate a = Inl (TextReviewRequest_errors a)
        \<and> (''findings'', Missing) \<in> set (TextReviewRequest_errors a))
   \<and> (\<forall>a. arg_step_number a = Given 0 \<longrightarrow>
        TextReviewRequest_validate a = Inl (TextReviewRequest_errors a)
        \<and> (''step_number'', Greater_than_equal 1) \<in> set (TextReviewRequest_errors a))
   \<and> (\<forall>a. isl (TextAnalyzeRequest_validate a) = (TextAnalyzeRequest_errors a \<noteq> []))
   \<and> (\<forall>a. isl (TextRefactorRequest_validate a) = (TextRefactorRequest_errors a \<noteq> []))
   \<and> (\<forall>a. isl (TextReviewRequest_validate a) = (TextReviewRequest_errors a \<noteq> []))"
  by (simp add: TextAnalyzeRequest_validate_def TextAnalyzeRequest_errors_def
      TextRefactorRequest_validate_def TextRefactorRequest_errors_def
      TextReviewRequest_validate_def TextReviewRequest_errors_def)

theorem missing_findings_or_zero_step_number_rejected_witness:
  "arg_findings (analyze_args_example\<lparr>arg_findings := Absent\<rparr>) = Absent
   \<and> TextAnalyzeRequest_validate (analyze_args_example\<lparr>arg_findings := Absent\<rparr>)
       = Inl [(''findings'', Missing)]
   \<and> arg_step_number (analyze_args_example\<lparr>arg_step_number := Given 0\<rparr>) = Given 0
   \<and> TextAnalyzeRequest_validate (analyze_args_example\<lparr>arg_step_number := Given 0\<rparr>)
       = Inl [(''step_number'', Greater_than_equal 1)]
   \<and> TextRefactorRequest_validate (refactor_args_example\<lparr>arg_findings := Absent\<rparr>)
       = Inl [(''findings'', Missing)]
   \<and> TextRefactorRequest_validate (refactor_args_example\<lparr>arg_step_number := Given 0\<rparr>)
       = Inl [(''step_number'', Greater_than_equal 1)]
   \<and> TextReviewRequest_validate (review_args_example\<lparr>arg_findings := Absent\<rparr>)
       = Inl [(''findings'', Missing)]
   \<and> TextReviewRequest_validate
         (review_args_example\<lparr>arg_step_number := Given 0, arg_findings := Absent\<rparr>)
       = Inl [(''step_number'', Greater_than_equal 1), (''findings'', Missing)]"
proof -
  note t = missing_findings_or_zero_step_number_rejected
  have e: "TextAnalyzeRequest_errors (analyze_args_example\<lparr>arg_findings := Absent\<rparr>)
        = [(''findings'', Missing)]"
      "TextAnalyzeRequest_errors (analyze_args_example\<lparr>arg_step_number := Given 0\<rparr>)
        = [(''step_number'', Greater_than_equal 1)]"
      "TextRefactorRequest_errors (refactor_args_example\<lparr>arg_findings := Absent\<rparr>)
        = [(''findings'', Missing)]"
      "TextRefactorRequest_errors (refactor_args_example\<lparr>arg_step_number := Given 0\<rparr>)
        = [(''step_number'', Greater_than_equal 1)]"
      "TextReviewRequest_errors (review_args_example\<lparr>arg_findings := Absent\<rparr>)
        = [(''findings'', Missing)]"
      "TextReviewRequest_errors
         (review_args_example\<lparr>arg_step_number := Given 0, arg_findings := Absent\<rparr>)
        = [(''step_number'', Greater_than_equal 1), (''findings'', Missing)]"
    by (simp_all add: TextAnalyzeRequest_errors_def TextRefactorRequest_errors_def
        TextReviewRequest_errors_def analyze_args_example_def refactor_args_example_def
        review_args_example_def vocabulary_defs)
  have "TextAnalyzeRequest_validate (analyze_args_example\<lparr>arg_findings := Absent\<rparr>)
       = Inl [(''findings'', Missing)]"
    using t [THEN conjunct1, rule_format, of "analyze_args_example\<lparr>arg_findings := Absent\<rparr>"]
    by (simp add: e)
  moreover have "TextAnalyzeRequest_validate (analyze_args_example\<lparr>arg_step_number := Given 0\<rparr>)
       = Inl [(''step_number'', Greater_than_equal 1)]"
    using t [THEN conjunct2, THEN conjunct1, rule_format,
        of "analyze_args_example\<lparr>arg_step_number := Given 0\<rparr>"]
    by (simp add: e)
  moreover have "TextRefactorRequest_validate (refactor_args_example\<lparr>arg_findings := Absent\<rparr>)
       = Inl [(''findings'', Missing)]"
    using t [THEN conjunct2, THEN conjunct2, THEN conjunct1, rule_format,
        of "refactor_args_example\<lparr>arg_findings := Absent\<rparr>"]
    by (simp add: e)
  moreover have "TextRefactorRequest_validate (refactor_args_example\<lparr>arg_step_number := Given 0\<rparr>)
       = Inl [(''step_number'', Greater_than_equal 1)]"
    using t [THEN conjunct2, THEN conjunct2, THEN conjunct2, THEN conjunct1, rule_format,
        of "refactor_args_example\<lparr>arg_step_number := Given 0\<rparr>"]
    by (simp add: e)
  moreover have "TextReviewRequest_validate (review_args_example\<lparr>arg_findings := Absent\<rparr>)
       = Inl [(''findings'', Missing)]"
    using t [THEN conjunct2, THEN conjunct2, THEN conjunct2, THEN conjunct2, THEN conjunct1,
        rule_format, of "review_args_example\<lparr>arg_findings := Absent\<rparr>"]
    by (simp add: e)
  moreover have "TextReviewRequest_validate
         (review_args_example\<lparr>arg_step_number := Given 0, arg_findings := Absent\<rparr>)
       = Inl [(''step_number'', Greater_than_equal 1), (''findings'', Missing)]"
    using t [THEN conjunct2, THEN conjunct2, THEN conjunct2, THEN conjunct2, THEN conjunct2,
        THEN conjunct1, rule_format,
        of "review_args_example\<lparr>arg_step_number := Given 0, arg_findings := Absent\<rparr>"]
    by (simp add: e)
  ultimately show ?thesis by simp
qed

subsection \<open>Validation: closed vocabularies\<close>

text \<open>
  Claim C6. The Analyze tool rejects \<^verbatim>\<open>analysis_type = "unknown"\<close> and the Refactor tool
  rejects \<^verbatim>\<open>confidence = "certain"\<close>, its confidence vocabulary being exploring,
  incomplete, partial, complete. More generally, for each tool, a value of the
  classification field or of the confidence field that is not in the field's vocabulary
  is rejected, with an error naming the field and the vocabulary.
\<close>

theorem value_outside_vocabulary_rejected:
  "(\<forall>a. arg_analysis_type a = Given ''unknown'' \<longrightarrow>
        TextAnalyzeRequest_validate a = Inl (TextAnalyzeRequest_errors a)
        \<and> (''analysis_type'', Literal_error
              [''structure'', ''themes'', ''arguments'', ''style'', ''readability'', ''general''])
            \<in> set (TextAnalyzeRequest_errors a))
   \<and> (\<forall>a. arg_confidence a = Given ''certain'' \<longrightarrow>
        TextRefactorRequest_validate a = Inl (TextRefactorRequest_errors a)
        \<and> (''confidence'', Literal_error [''exploring'', ''incomplete'', ''partial'', ''complete''])
            \<in> set (TextRefactorRequest_errors a))
   \<and> (\<forall>a v. arg_analysis_type a = Given v \<and> v \<notin> set analysis_types \<longrightarrow>
        TextAnalyzeRequest_validate a = Inl (TextAnalyzeRequest_errors a)
        \<and> (''analysis_type'', Literal_error analysis_types) \<in> set (TextAnalyzeRequest_errors a))
   \<and> (\<forall>a v. arg_confidence a = Given v \<and> v \<notin> set confidence_levels \<longrightarrow>
        TextAnalyzeRequest_validate a = Inl (TextAnalyzeRequest_errors a)
        \<and> (''confidence'', Literal_error confidence_levels) \<in> set (TextAnalyzeRequest_errors a))
   \<and> (\<forall>a v. arg_refactor_type a = Given v \<and> v \<notin> set refactor_types \<longrightarrow>
        TextRefactorRequest_validate a = Inl (TextRefactorRequest_errors a)
        \<and> (''refactor_type'', Literal_error refactor_types) \<in> set (TextRefactorRequest_errors a))
   \<and> (\<forall>a v. arg_confidence a = Given v \<and> v \<notin> set refactor_confidence_levels \<longrightarrow>
        TextRefactorRequest_validate a = Inl (TextRefactorRequest_errors a)
        \<and> (''confidence'', Literal_error refactor_confidence_levels)
            \<in> set (TextRefactorRequest_errors a))
   \<and> (\<forall>a v. arg_review_type a = Given v \<and> v \<notin> set review_types \<longrightarrow>
        TextReviewRequest_validate a = Inl (TextReviewRequest_errors a)
        \<and> (''review_type'', Literal_error review_types) \<in> set (TextReviewRequest_errors a))
   \<and> (\<forall>a v. arg_confidence a = Given v \<and> v \<notin> set confidence_levels \<longrightarrow>
        TextReviewRequest_validate a = Inl (TextReviewRequest_errors a)
        \<and> (''confidence'', Literal_error confidence_levels) \<in> set (TextReviewRequest_errors a))"
proof -
  have u: "''unknown'' \<notin> set analysis_types" "''certain'' \<notin> set refactor_confidence_levels"
    by (simp_all add: analysis_types_def refactor_confidence_levels_def)
  have v: "analysis_types =
      [''structure'', ''themes'', ''arguments'', ''style'', ''readability'', ''general'']"
    "refactor_confidence_levels = [''exploring'', ''incomplete'', ''partial'', ''complete'']"
    by (simp_all add: analysis_types_def refactor_confidence_levels_def)
  show ?thesis
    unfolding v [symmetric]
    by (simp add: u TextAnalyzeRequest_validate_def TextAnalyzeRequest_errors_def
        TextRefactorRequest_validate_def TextRefactorRequest_errors_def
        TextReviewRequest_validate_def TextReviewRequest_errors_def)
qed

theorem value_outside_vocabulary_rejected_witness:
  "TextAnalyzeRequest_validate (analyze_args_example\<lparr>arg_analysis_type := Given ''unknown''\<rparr>)
     = Inl [(''analysis_type'', Literal_error
              [''structure'', ''themes'', ''arguments'', ''style'', ''readability'', ''general''])]
   \<and> TextRefactorRequest_validate (refactor_args_example\<lparr>arg_confidence := Given ''certain''\<rparr>)
     = Inl [(''confidence'', Literal_error [''exploring'', ''incomplete'', ''partial'', ''complete''])]
   \<and> ''summary'' \<notin> set review_types
   \<and> TextReviewRequest_validate (review_args_example\<lparr>arg_review_type := Given ''summary''\<rparr>)
     = Inl [(''review_type'', Literal_error review_types)]"
proof -
  note t = value_outside_vocabulary_rejected
  have e: "TextAnalyzeRequest_errors (analyze_args_example\<lparr>arg_analysis_type := Given ''unknown''\<rparr>)
     = [(''analysis_type'', Literal_error
              [''structure'', ''themes'', ''arguments'', ''style'', ''readability'', ''general''])]"
    "TextRefactorRequest_errors (refactor_args_example\<lparr>arg_confidence := Given ''certain''\<rparr>)
     = [(''confidence'', Literal_error [''exploring'', ''incomplete'', ''partial'', ''complete''])]"
    by (simp_all add: TextAnalyzeRequest_errors_def TextRefactorRequest_errors_def
        analyze_args_example_def refactor_args_example_def vocabulary_defs)
  have e': "TextReviewRequest_errors (review_args_example\<lparr>arg_review_type := Given ''summary''\<rparr>)
     = [(''review_type'', Literal_error review_types)]"
    and n: "''summary'' \<notin> set review_types"
    by (simp_all add: TextReviewRequest_errors_def review_args_example_def
        confidence_levels_def severity_filters_def)
      (simp_all add: review_types_def)
  have "TextAnalyzeRequest_validate (analyze_args_example\<lparr>arg_analysis_type := Given ''unknown''\<rparr>)
     = Inl [(''analysis_type'', Literal_error
              [''structure'', ''themes'', ''arguments'', ''style'', ''readability'', ''general''])]"
    using t [THEN conjunct1, rule_format,
        of "analyze_args_example\<lparr>arg_analysis_type := Given ''unknown''\<rparr>"]
    by (simp add: e)
  moreover have "TextRefactorRequest_validate
       (refactor_args_example\<lparr>arg_confidence := Given ''certain''\<rparr>)
     = Inl [(''confidence'', Literal_error [''exploring'', ''incomplete'', ''partial'', ''complete''])]"
    using t [THEN conjunct2, THEN conjunct1, rule_format,
        of "refactor_args_example\<lparr>arg_confidence := Given ''certain''\<rparr>"]
    by (simp add: e)
  moreover have "TextReviewRequest_validate
       (review_args_example\<lparr>arg_review_type := Given ''summary''\<rparr>)
     = Inl [(''review_type'', Literal_error review_types)]"
    using n t [THEN conjunct2, THEN conjunct2, THEN conjunct2, THEN conjunct2, THEN conjunct2,
        THEN conjunct2, THEN conjunct1, rule_format,
        of "review_args_example\<lparr>arg_review_type := Given ''summary''\<rparr>" "''summary''"]
    by (simp add: e')
  ultimately show ?thesis using n by simp
qed

subsection \<open>Validation: the step text\<close>

text \<open>
  Claim C9, as amended. The source declares \<^verbatim>\<open>step: str = Field(...)\<close> with no minimum
  length, so the empty string is accepted. What holds for each tool: a call that leaves
  \<^verbatim>\<open>step\<close> out, or gives \<^verbatim>\<open>null\<close>, is rejected with an error naming \<^verbatim>\<open>step\<close>; and when
  \<^verbatim>\<open>step\<close> is a string, the errors of the call do not depend on which string it is (the
  empty one included), and an accepted call yields a request holding that string.
\<close>

theorem empty_step_accepted_counterexample:
  "TextAnalyzeRequest_validate (analyze_args_example\<lparr>arg_step := Given []\<rparr>)
     = Inr (analyze_request_example\<lparr>step := []\<rparr>)
   \<and> TextRefactorRequest_validate (refactor_args_example\<lparr>arg_step := Given []\<rparr>)
     = Inr (refactor_request_example\<lparr>step := []\<rparr>)
   \<and> TextReviewRequest_validate (review_args_example\<lparr>arg_step := Given []\<rparr>)
     = Inr (review_request_example\<lparr>step := []\<rparr>)"
  by (simp add: TextAnalyzeRequest_validate_def TextAnalyzeRequest_errors_def
      TextRefactorRequest_validate_def TextRefactorRequest_errors_def
      TextReviewRequest_validate_def TextReviewRequest_errors_def
      analyze_args_example_def analyze_request_example_def
      refactor_args_example_def refactor_request_example_def
      review_args_example_def review_request_example_def vocabulary_defs)

theorem step_text_unconstrained:
  "(\<forall>a. arg_step a = Absent \<longrightarrow>
        TextAnalyzeRequest_validate a = Inl (TextAnalyzeRequest_errors a)
        \<and> (''step'', Missing) \<in> set (TextAnalyzeRequest_errors a))
   \<and> (\<forall>a. arg_step a = Null \<longrightarrow>
        TextAnalyzeRequest_validate a = Inl (TextAnalyzeRequest_errors a)
        \<and> (''step'', String_type) \<in> set (TextAnalyzeRequest_errors a))
   \<and> (\<forall>a s s'. TextAnalyzeRequest_errors (a\<lparr>arg_step := Given s\<rparr>)
                 = TextAnalyzeRequest_errors (a\<lparr>arg_step := Given s'\<rparr>))
   \<and> (\<forall>a s r. TextAnalyzeRequest_validate (a\<lparr>arg_step := Given s\<rparr>) = Inr r \<longrightarrow> step r = s)
   \<and> (\<forall>a. arg_step a = Absent \<longrightarrow>
        TextRefactorRequest_validate a = Inl (TextRefactorRequest_errors a)
        \<and> (''step'', Missing) \<in> set (TextRefactorRequest_errors a))
   \<and> (\<forall>a. arg_step a = Null \<longrightarrow>
        TextRefactorRequest_validate a = Inl (TextRefactorRequest_errors a)
        \<and> (''step'', String_type) \<in> set (TextRefactorRequest_errors a))
   \<and> (\<forall>a s s'. TextRefactorRequest_errors (a\<lparr>arg_step := Given s\<rparr>)
                 = TextRefactorRequest_errors (a\<lparr>arg_step := Given s'\<rparr>))
   \<and> (\<forall>a s r. TextRefactorRequest_validate (a\<lparr>arg_step := Given s\<rparr>) = Inr r \<longrightarrow> step r = s)
   \<and> (\<forall>a. arg_step a = Absent \<longrightarrow>
        TextReviewRequest_validate a = Inl (TextReviewRequest_errors a)
        \<and> (''step'', Missing) \<in> set (TextReviewRequest_errors a))
   \<and> (\<forall>a. arg_step a = Null \<longrightarrow>
        TextReviewRequest_validate a = Inl (TextReviewRequest_errors a)
        \<and> (''step'', String_type) \<in> set (TextReviewRequest_errors a))
   \<and> (\<forall>a s s'. TextReviewRequest_errors (a\<lparr>arg_step := Given s\<rparr>)
                 = TextReviewRequest_errors (a\<lparr>arg_step := Given s'\<rparr>))
   \<and> (\<forall>a s r. TextReviewRequest_validate (a\<lparr>arg_step := Given s\<rparr>) = Inr r \<longrightarrow> step r = s)"
  by (auto simp: TextAnalyzeRequest_validate_def TextAnalyzeRequest_errors_def
      TextRefactorRequest_validate_def TextRefactorRequest_errors_def
      TextReviewRequest_validate_def TextReviewRequest_errors_def split: if_splits)

theorem step_text_unconstrained_witness:
  "TextAnalyzeRequest_validate (analyze_args_example\<lparr>arg_step := Absent\<rparr>)
     = Inl [(''step'', Missing)]
   \<and> TextRefactorRequest_validate (refactor_args_example\<lparr>arg_step := Null\<rparr>)
     = Inl [(''step'', String_type)]
   \<and> TextReviewRequest_validate (review_args_example\<lparr>arg_step := Given ''x''\<rparr>)
     = Inr (review_request_example\<lparr>step := ''x''\<rparr>)
   \<and> step (review_request_example\<lparr>step := ''x''\<rparr>) = ''x''"
proof -
  note t = step_text_unconstrained
  have e: "TextAnalyzeRequest_errors (analyze_args_example\<lparr>arg_step := Absent\<rparr>)
        = [(''step'', Missing)]"
    "TextRefactorRequest_errors (refactor_args_example\<lparr>arg_step := Null\<rparr>)
        = [(''step'', String_type)]"
    by (simp_all add: TextAnalyzeRequest_errors_def TextRefactorRequest_errors_def
        analyze_args_example_def refactor_args_example_def vocabulary_defs)
  have v: "TextReviewRequest_validate (review_args_example\<lparr>arg_step := Given ''x''\<rparr>)
     = Inr (review_request_example\<lparr>step := ''x''\<rparr>)"
    by (simp add: TextReviewRequest_validate_def TextReviewRequest_errors_def
        review_args_example_def review_request_example_def vocabulary_defs)
  have "TextAnalyzeRequest_validate (analyze_args_example\<lparr>arg_step := Absent\<rparr>)
     = Inl [(''step'', Missing)]"
    using t [THEN conjunct1, rule_format, of "analyze_args_example\<lparr>arg_step := Absent\<rparr>"]
    by (simp add: e)
  moreover have "TextRefactorRequest_validate (refactor_args_example\<lparr>arg_step := Null\<rparr>)
     = Inl [(''step'', String_type)]"
    using t [THEN conjunct2, THEN conjunct2, THEN conjunct2, THEN conjunct2, THEN conjunct2,
        THEN conjunct1, rule_format, of "refactor_args_example\<lparr>arg_step := Null\<rparr>"]
    by (simp add: e)
  moreover have "step (review_request_example\<lparr>step := ''x''\<rparr>) = ''x''"
    by (rule t [THEN conjunct2, THEN conjunct2, THEN conjunct2, THEN conjunct2, THEN conjunct2,
        THEN conjunct2, THEN conjunct2, THEN conjunct2, THEN conjunct2, THEN conjunct2,
        THEN conjunct2, rule_format, OF v])
  ultimately show ?thesis using v by simp
qed

subsection \<open>Validation: the entries of issues_found\<close>

text \<open>
  Claim C8, as amended. \<^verbatim>\<open>issues_found\<close> is declared \<^verbatim>\<open>Optional[list[dict[str, Any]]]\<close>:
  the entries are dictionaries with string keys and nothing is asked of their contents.
  The four severity levels appear only in the description text of the field. What holds
  for each tool: the errors of a call do not depend on its \<^verbatim>\<open>issues_found\<close> argument, and
  an accepted call stays accepted whatever list of dictionaries replaces that argument,
  the request holding the list unchanged.
\<close>

theorem issue_severity_unchecked_counterexample:
  "TextAnalyzeRequest_validate
     (analyze_args_example\<lparr>arg_issues_found :=
        Given [[(''severity'', PStr ''urgent''), (''description'', PStr ''Missing summary'')],
               [(''description'', PStr ''No severity given'')]]\<rparr>)
   = Inr (analyze_request_example\<lparr>issues_found :=
        Some [[(''severity'', PStr ''urgent''), (''description'', PStr ''Missing summary'')],
              [(''description'', PStr ''No severity given'')]]\<rparr>)
   \<and> map_of [(''severity'', PStr ''urgent''), (''description'', PStr ''Missing summary'')]
        ''severity'' = Some (PStr ''urgent'')
   \<and> ''urgent'' \<notin> {''critical'', ''high'', ''medium'', ''low''}
   \<and> map_of [(''description'', PStr ''No severity given'')] ''severity'' = None"
  by (simp add: TextAnalyzeRequest_validate_def TextAnalyzeRequest_errors_def
      analyze_args_example_def analyze_request_example_def vocabulary_defs)

theorem issues_found_entries_unconstrained:
  "(\<forall>a x. TextAnalyzeRequest_errors (a\<lparr>arg_issues_found := x\<rparr>) = TextAnalyzeRequest_errors a)
   \<and> (\<forall>a r issues. TextAnalyzeRequest_validate a = Inr r \<longrightarrow>
        TextAnalyzeRequest_validate (a\<lparr>arg_issues_found := Given issues\<rparr>)
          = Inr (r\<lparr>issues_found := Some issues\<rparr>))
   \<and> (\<forall>a x. TextRefactorRequest_errors (a\<lparr>arg_issues_found := x\<rparr>)
               = TextRefactorRequest_errors a)
   \<and> (\<forall>a r issues. TextRefactorRequest_validate a = Inr r \<longrightarrow>
        TextRefactorRequest_validate (a\<lparr>arg_issues_found := Given issues\<rparr>)
          = Inr (r\<lparr>issues_found := Some issues\<rparr>))
   \<and> (\<forall>a x. TextReviewRequest_errors (a\<lparr>arg_issues_found := x\<rparr>) = TextReviewRequest_errors a)
   \<and> (\<forall>a r issues. TextReviewRequest_validate a = Inr r \<longrightarrow>
        TextReviewRequest_validate (a\<lparr>arg_issues_found := Given issues\<rparr>)
          = Inr (r\<lparr>issues_found := Some issues\<rparr>))"
  by (auto simp: TextAnalyzeRequest_validate_def TextAnalyzeRequest_errors_def
      TextRefactorRequest_validate_def TextRefactorRequest_errors_def
      TextReviewRequest_validate_def TextReviewRequest_errors_def split: if_splits)

theorem issues_found_entries_unconstrained_witness:
  "TextAnalyzeRequest_validate analyze_args_example = Inr analyze_request_example
   \<and> TextAnalyzeRequest_validate
       (analyze_args_example\<lparr>arg_issues_found := Given [[(''severity'', PInt 7)], []]\<rparr>)
     = Inr (analyze_request_example\<lparr>issues_found := Some [[(''severity'', PInt 7)], []]\<rparr>)
   \<and> TextRefactorRequest_validate refactor_args_example = Inr refactor_request_example
   \<and> TextRefactorRequest_validate
       (refactor_args_example\<lparr>arg_issues_found := Given [[(''severity'', PStr ''none'')]]\<rparr>)
     = Inr (refactor_request_example\<lparr>issues_found := Some [[(''severity'', PStr ''none'')]]\<rparr>)
   \<and> TextReviewRequest_validate review_args_example = Inr review_request_example
   \<and> TextReviewRequest_validate
       (review_args_example\<lparr>arg_issues_found := Given [[(''note'', PNone)]]\<rparr>)
     = Inr (review_request_example\<lparr>issues_found := Some [[(''note'', PNone)]]\<rparr>)"
proof -
  note t = issues_found_entries_unconstrained
  note a = t [THEN conjunct2, THEN conjunct1, rule_format, OF analyze_example_valid,
      of "[[(''severity'', PInt 7)], []]"]
  note f = t [THEN conjunct2, THEN conjunct2, THEN conjunct2, THEN conjunct1, rule_format,
      OF refactor_example_valid, of "[[(''severity'', PStr ''none'')]]"]
  note v = t [THEN conjunct2, THEN conjunct2, THEN conjunct2, THEN conjunct2, THEN conjunct2,
      rule_format, OF review_example_valid, of "[[(''note'', PNone)]]"]
  show ?thesis
    using a f v analyze_example_valid refactor_example_valid review_example_valid by simp
qed

subsection \<open>Defaults of the classification field\<close>

text \<open>
  Claim C10. When the call leaves the classification field out, an accepted request
  holds the default of the tool. For Refactor it is \<^verbatim>\<open>organization\<close> and for Review
  \<^verbatim>\<open>comprehensive\<close>, both content-heavy, so these two tools embed files at every step
  number. For Analyze it is \<^verbatim>\<open>general\<close>, which is not content-heavy, so with no relevant
  files (the argument left out, \<^verbatim>\<open>null\<close> or the empty list) and a step number above 1 the
  Analyze tool does not embed files.
\<close>

theorem classification_default_effect:
  "(\<forall>a r. TextRefactorRequest_validate a = Inr r \<and> arg_refactor_type a = Absent \<longrightarrow>
        refactor_type r = ''organization'' \<and> TextRefactorTool_should_embed_files_as_context r)
   \<and> (\<forall>a r. TextReviewRequest_validate a = Inr r \<and> arg_review_type a = Absent \<longrightarrow>
        review_type r = ''comprehensive'' \<and> TextReviewTool_should_embed_files_as_context r)
   \<and> (\<forall>a r. TextAnalyzeRequest_validate a = Inr r \<and> arg_analysis_type a = Absent
          \<and> arg_relevant_files a \<in> {Absent, Null, Given []} \<and> 1 < step_number r \<longrightarrow>
        analysis_type r = ''general'' \<and> \<not> TextAnalyzeTool_should_embed_files_as_context r)"
  by (auto simp: TextAnalyzeRequest_validate_def TextRefactorRequest_validate_def
      TextReviewRequest_validate_def TextAnalyzeTool_should_embed_files_as_context_def
      TextRefactorTool_should_embed_files_as_context_def
      TextReviewTool_should_embed_files_as_context_def split: if_splits)

theorem classification_default_effect_witness:
  "TextRefactorRequest_validate refactor_args_example = Inr refactor_request_example
   \<and> arg_refactor_type refactor_args_example = Absent
   \<and> step_number refactor_request_example = 2
   \<and> TextRefactorTool_should_embed_files_as_context refactor_request_example
   \<and> TextReviewRequest_validate review_args_example = Inr review_request_example
   \<and> arg_review_type review_args_example = Absent
   \<and> step_number review_request_example = 3
   \<and> TextReviewTool_should_embed_files_as_context review_request_example
   \<and> TextAnalyzeRequest_validate
        (analyze_args_example\<lparr>arg_step_number := Given 2, arg_relevant_files := Given []\<rparr>)
      = Inr (analyze_request_example\<lparr>step_number := 2, relevant_files := Some []\<rparr>)
   \<and> arg_analysis_type
        (analyze_args_example\<lparr>arg_step_number := Given 2, arg_relevant_files := Given []\<rparr>)
      = Absent
   \<and> \<not> TextAnalyzeTool_should_embed_files_as_context
        (analyze_request_example\<lparr>step_number := 2, relevant_files := Some []\<rparr>)"
proof -
  note t = classification_default_effect
  have x: "arg_refactor_type refactor_args_example = Absent"
    "arg_review_type review_args_example = Absent"
    "step_number refactor_request_example = 2" "step_number review_request_example = 3"
    by (simp_all add: refactor_args_example_def review_args_example_def
        refactor_request_example_def review_request_example_def)
  have y: "TextAnalyzeRequest_validate
        (analyze_args_example\<lparr>arg_step_number := Given 2, arg_relevant_files := Given []\<rparr>)
      = Inr (analyze_request_example\<lparr>step_number := 2, relevant_files := Some []\<rparr>)"
    "arg_analysis_type
        (analyze_args_example\<lparr>arg_step_number := Given 2, arg_relevant_files := Given []\<rparr>)
      = Absent"
    "arg_relevant_files
        (analyze_args_example\<lparr>arg_step_number := Given 2, arg_relevant_files := Given []\<rparr>)
      = Given []"
    "1 < step_number (analyze_request_example\<lparr>step_number := 2, relevant_files := Some []\<rparr>)"
    by (simp_all add: TextAnalyzeRequest_validate_def TextAnalyzeRequest_errors_def
        analyze_args_example_def analyze_request_example_def vocabulary_defs)
  have "TextRefactorTool_should_embed_files_as_context refactor_request_example"
    using t [THEN conjunct1, rule_format, of refactor_args_example refactor_request_example]
      refactor_example_valid x by simp
  moreover have "TextReviewTool_should_embed_files_as_context review_request_example"
    using t [THEN conjunct2, THEN conjunct1, rule_format,
        of review_args_example review_request_example]
      review_example_valid x by simp
  moreover have "\<not> TextAnalyzeTool_should_embed_files_as_context
        (analyze_request_example\<lparr>step_number := 2, relevant_files := Some []\<rparr>)"
    using t [THEN conjunct2, THEN conjunct2, rule_format,
        of "analyze_args_example\<lparr>arg_step_number := Given 2, arg_relevant_files := Given []\<rparr>"
          "analyze_request_example\<lparr>step_number := 2, relevant_files := Some []\<rparr>"]
      y by simp
  ultimately show ?thesis
    using refactor_example_valid review_example_valid x y by simp
qed

subsection \<open>The expert analysis context, line by line\<close>

lemma str_join_Cons: "str_join sep (x # xs) = x @ concat (map ((@) sep) xs)"
  by (induction sep "x # xs" arbitrary: x xs rule: str_join.induct) simp_all

lemma str_upper_vocabulary:
  "str_upper ''structure'' = ''STRUCTURE''" "str_upper ''themes'' = ''THEMES''"
  "str_upper ''arguments'' = ''ARGUMENTS''" "str_upper ''style'' = ''STYLE''"
  "str_upper ''readability'' = ''READABILITY''" "str_upper ''general'' = ''GENERAL''"
  "str_upper ''organization'' = ''ORGANIZATION''" "str_upper ''clarity'' = ''CLARITY''"
  "str_upper ''flow'' = ''FLOW''" "str_upper ''comprehensive'' = ''COMPREHENSIVE''"
  "str_upper ''content'' = ''CONTENT''"
  by (simp_all add: str_upper_def upper_char_def)

lemma str_int_examples: "str_int 1 = ''1''" "str_int 2 = ''2''" "str_int 3 = ''3''" "str_int 4 = ''4''"
  by (simp_all add: str_int_def str_nat.simps digit_char_def)

lemma vocabulary_no_newline:
  "x \<in> set analysis_types \<Longrightarrow> CHR 0x0A \<notin> set (str_upper x)"
  "x \<in> set refactor_types \<Longrightarrow> CHR 0x0A \<notin> set (str_upper x)"
  "x \<in> set review_types \<Longrightarrow> CHR 0x0A \<notin> set (str_upper x)"
  "x \<in> set confidence_levels \<Longrightarrow> CHR 0x0A \<notin> set x"
  "x \<in> set refactor_confidence_levels \<Longrightarrow> CHR 0x0A \<notin> set x"
  by (auto simp: vocabulary_defs str_upper_vocabulary)

lemma split_lines_single: "CHR 0x0A \<notin> set s \<Longrightarrow> concat (map split_lines [s]) = [s]"
  by (simp add: split_lines_no_newline)

lemma split_lines_issue_lines:
  "concat (map split_lines (map (\<lambda>issue. ''- '' @ repr (PDict issue)) issues))
     = map (\<lambda>issue. ''- '' @ repr (PDict issue)) issues"
proof (induction issues)
  case (Cons i issues)
  have "CHR 0x0A \<notin> set (''- '' @ repr (PDict i))"
    using repr_no_newline [of "PDict i"] by simp
  then have "split_lines (''- '' @ repr (PDict i)) = [''- '' @ repr (PDict i)]"
    by (rule split_lines_no_newline)
  with Cons show ?case by simp
qed simp

lemma split_lines_entry_lines:
  "\<forall>t \<in> set entries. CHR 0x0A \<notin> set t \<Longrightarrow>
     concat (map split_lines (map (\<lambda>t. ''- '' @ t) entries)) = map (\<lambda>t. ''- '' @ t) entries"
proof (induction entries)
  case (Cons t entries)
  then have "CHR 0x0A \<notin> set (''- '' @ t)" by simp
  then have "split_lines (''- '' @ t) = [''- '' @ t]"
    by (rule split_lines_no_newline)
  with Cons show ?case by simp
qed simp

text \<open>The first five lines of each context, for an accepted request.\<close>

lemma analyze_heading_lines:
  assumes "TextAnalyzeRequest_validate a = Inr r"
  shows "concat (map split_lines
           [''TEXT ANALYSIS REQUEST - '' @ str_upper (analysis_type r),
            ''Analysis confidence: '' @ confidence r,
            ''Step '' @ str_int (step_number r) @ '' of '' @ str_int (total_steps r),
            [], ''ANALYSIS FINDINGS:''])
       = [''TEXT ANALYSIS REQUEST - '' @ str_upper (analysis_type r),
            ''Analysis confidence: '' @ confidence r,
            ''Step '' @ str_int (step_number r) @ '' of '' @ str_int (total_steps r),
            [], ''ANALYSIS FINDINGS:'']"
proof -
  have "CHR 0x0A \<notin> set (''TEXT ANALYSIS REQUEST - '' @ str_upper (analysis_type r))"
    using vocabulary_no_newline(1) [OF analyze_valid_fields(4) [OF assms]] by simp
  moreover have "CHR 0x0A \<notin> set (''Analysis confidence: '' @ confidence r)"
    using vocabulary_no_newline(4) [OF analyze_valid_fields(3) [OF assms]] by simp
  moreover have "CHR 0x0A \<notin>
      set (''Step '' @ str_int (step_number r) @ '' of '' @ str_int (total_steps r))"
    by (simp add: str_int_no_newline)
  ultimately show ?thesis by (simp add: split_lines_no_newline)
qed

lemma refactor_heading_lines:
  assumes "TextRefactorRequest_validate a = Inr r"
  shows "concat (map split_lines
           [''TEXT REFACTORING REQUEST - '' @ str_upper (refactor_type r),
            ''Refactoring confidence: '' @ confidence r,
            ''Step '' @ str_int (step_number r) @ '' of '' @ str_int (total_steps r),
            [], ''REFACTORING FINDINGS:''])
       = [''TEXT REFACTORING REQUEST - '' @ str_upper (refactor_type r),
            ''Refactoring confidence: '' @ confidence r,
            ''Step '' @ str_int (step_number r) @ '' of '' @ str_int (total_steps r),
            [], ''REFACTORING FINDINGS:'']"
proof -
  have "CHR 0x0A \<notin> set (''TEXT REFACTORING REQUEST - '' @ str_upper (refactor_type r))"
    using vocabulary_no_newline(2) [OF refactor_valid_fields(4) [OF assms]] by simp
  moreover have "CHR 0x0A \<notin> set (''Refactoring confidence: '' @ confidence r)"
    using vocabulary_no_newline(5) [OF refactor_valid_fields(3) [OF assms]] by simp
  moreover have "CHR 0x0A \<notin>
      set (''Step '' @ str_int (step_number r) @ '' of '' @ str_int (total_steps r))"
    by (simp add: str_int_no_newline)
  ultimately show ?thesis by (simp add: split_lines_no_newline)
qed

lemma review_heading_lines:
  assumes "TextReviewRequest_validate a = Inr r"
  shows "concat (map split_lines
           [''TEXT REVIEW REQUEST - '' @ str_upper (review_type r),
            ''Review confidence: '' @ confidence r,
            ''Step '' @ str_int (step_number r) @ '' of '' @ str_int (total_steps r),
            [], ''REVIEW FINDINGS:''])
       = [''TEXT REVIEW REQUEST - '' @ str_upper (review_type r),
            ''Review confidence: '' @ confidence r,
            ''Step '' @ str_int (step_number r) @ '' of '' @ str_int (total_steps r),
            [], ''REVIEW FINDINGS:'']"
proof -
  have "CHR 0x0A \<notin> set (''TEXT REVIEW REQUEST - '' @ str_upper (review_type r))"
    using vocabulary_no_newline(3) [OF review_valid_fields(4) [OF assms]] by simp
  moreover have "CHR 0x0A \<notin> set (''Review confidence: '' @ confidence r)"
    using vocabulary_no_newline(4) [OF review_valid_fields(3) [OF assms]] by simp
  moreover have "CHR 0x0A \<notin>
      set (''Step '' @ str_int (step_number r) @ '' of '' @ str_int (total_steps r))"
    by (simp add: str_int_no_newline)
  ultimately show ?thesis by (simp add: split_lines_no_newline)
qed

text \<open>Each context as the join of its heading, the findings and the optional sections.\<close>

lemma analyze_context_parts:
  "TextAnalyzeTool_prepare_expert_analysis_context r =
     str_join [CHR 0x0A]
       ([''TEXT ANALYSIS REQUEST - '' @ str_upper (analysis_type r),
         ''Analysis confidence: '' @ confidence r,
         ''Step '' @ str_int (step_number r) @ '' of '' @ str_int (total_steps r),
         [], ''ANALYSIS FINDINGS:'']
        @ [findings r]
        @ (if truthy (issues_found r)
           then [[], ''ISSUES IDENTIFIED:'']
                @ map (\<lambda>issue. ''- '' @ repr (PDict issue)) (the (issues_found r))
           else [])
        @ (if truthy (relevant_context r)
           then [[], ''KEY THEMES/ARGUMENTS:'']
                @ map (\<lambda>t. ''- '' @ t) (the (relevant_context r))
           else []))"
  by (simp add: TextAnalyzeTool_prepare_expert_analysis_context_def Let_def)

lemma refactor_context_parts:
  "TextRefactorTool_prepare_expert_analysis_context r =
     str_join [CHR 0x0A]
       ([''TEXT REFACTORING REQUEST - '' @ str_upper (refactor_type r),
         ''Refactoring confidence: '' @ confidence r,
         ''Step '' @ str_int (step_number r) @ '' of '' @ str_int (total_steps r),
         [], ''REFACTORING FINDINGS:'']
        @ [findings r]
        @ (if truthy (issues_found r)
           then [[], ''REFACTORING OPPORTUNITIES:'']
                @ map (\<lambda>issue. ''- '' @ repr (PDict issue)) (the (issues_found r))
           else [])
        @ (if truthy (focus_areas r)
           then [[], ''FOCUS AREAS:'']
                @ map (\<lambda>t. ''- '' @ t) (the (focus_areas r))
           else []))"
  by (simp add: TextRefactorTool_prepare_expert_analysis_context_def Let_def)

lemma review_context_parts:
  "TextReviewTool_prepare_expert_analysis_context r =
     str_join [CHR 0x0A]
       ([''TEXT REVIEW REQUEST - '' @ str_upper (review_type r),
         ''Review confidence: '' @ confidence r,
         ''Step '' @ str_int (step_number r) @ '' of '' @ str_int (total_steps r),
         [], ''REVIEW FINDINGS:'']
        @ [findings r]
        @ (if truthy (issues_found r)
           then [[], ''ISSUES IDENTIFIED:'']
                @ map (\<lambda>issue. ''- '' @ repr (PDict issue)) (the (issues_found r))
           else []))"
  by (simp add: TextReviewTool_prepare_expert_analysis_context_def Let_def)

lemma split_lines_parts:
  "split_lines (str_join [CHR 0x0A] (heading @ [f] @ issues @ entries))
     = concat (map split_lines heading) @ split_lines f
       @ concat (map split_lines issues) @ concat (map split_lines entries)"
  by (subst split_lines_join) simp_all

lemma sublist_parts:
  "heading \<noteq> [] \<Longrightarrow> sublist f (str_join sep (heading @ [f] @ rest))"
proof -
  assume "heading \<noteq> []"
  then obtain h hs where h: "heading = h # hs" by (cases heading) auto
  have "str_join sep (heading @ [f] @ rest)
      = (h @ concat (map ((@) sep) hs) @ sep) @ f @ concat (map ((@) sep) rest)"
    by (simp add: h str_join_Cons)
  then show ?thesis by (metis sublist_appendI)
qed

lemma str_join_section:
  "parts \<noteq> [] \<Longrightarrow>
     str_join [CHR 0x0A] (parts @ [[], title] @ map (\<lambda>t. ''- '' @ t) entries)
       = str_join [CHR 0x0A] parts @ [CHR 0x0A, CHR 0x0A] @ title
         @ concat (map (\<lambda>t. [CHR 0x0A] @ ''- '' @ t) entries)"
proof -
  assume "parts \<noteq> []"
  then obtain p ps where p: "parts = p # ps" by (cases parts) auto
  show ?thesis by (simp add: p str_join_Cons comp_def)
qed

lemma split_lines_issue_section:
  "CHR 0x0A \<notin> set title \<Longrightarrow>
     concat (map split_lines ([[], title] @ map (\<lambda>issue. ''- '' @ repr (PDict issue)) issues))
       = [[], title] @ map (\<lambda>issue. ''- '' @ repr (PDict issue)) issues"
  using split_lines_issue_lines [of issues]
  by (simp add: split_lines_no_newline del: repr.simps)

lemma issue_titles_no_newline:
  "CHR 0x0A \<notin> set ''ISSUES IDENTIFIED:''" "CHR 0x0A \<notin> set ''REFACTORING OPPORTUNITIES:''"
  by simp_all

subsection \<open>The expert analysis context: findings and issues\<close>

text \<open>
  Claim C5. Take a request accepted by validation whose \<^verbatim>\<open>issues_found\<close> is a non-empty
  list and whose themes collection (\<^verbatim>\<open>relevant_context\<close> for Analyze, \<^verbatim>\<open>focus_areas\<close> for
  Refactor) is empty, that is \<^verbatim>\<open>None\<close> or the empty list. Then the context contains the
  findings as a contiguous part, and its lines are: the five heading lines, the lines of
  the findings, an empty line, the issues title, and one line per issue in the order of
  the list. Nothing follows the last issue line, so there is no themes section and no
  themes title. The Review context never has a themes section, so for Review the same
  holds whatever \<^verbatim>\<open>relevant_context\<close> is. An empty collection produces no title: when
  the issues are empty as well, the lines stop after the findings, and when only the
  issues are empty, the themes section follows the findings directly.
\<close>

theorem expert_context_findings_and_issues:
  "(\<forall>a r issues. TextAnalyzeRequest_validate a = Inr r \<and> issues_found r = Some issues
        \<and> issues \<noteq> [] \<and> \<not> truthy (relevant_context r) \<longrightarrow>
      sublist (findings r) (TextAnalyzeTool_prepare_expert_analysis_context r)
      \<and> split_lines (TextAnalyzeTool_prepare_expert_analysis_context r) =
          [''TEXT ANALYSIS REQUEST - '' @ str_upper (analysis_type r),
           ''Analysis confidence: '' @ confidence r,
           ''Step '' @ str_int (step_number r) @ '' of '' @ str_int (total_steps r),
           [], ''ANALYSIS FINDINGS:'']
          @ split_lines (findings r)
          @ [[], ''ISSUES IDENTIFIED:'']
          @ map (\<lambda>issue. ''- '' @ repr (PDict issue)) issues)
   \<and> (\<forall>a r issues. TextRefactorRequest_validate a = Inr r \<and> issues_found r = Some issues
        \<and> issues \<noteq> [] \<and> \<not> truthy (focus_areas r) \<longrightarrow>
      sublist (findings r) (TextRefactorTool_prepare_expert_analysis_context r)
      \<and> split_lines (TextRefactorTool_prepare_expert_analysis_context r) =
          [''TEXT REFACTORING REQUEST - '' @ str_upper (refactor_type r),
           ''Refactoring confidence: '' @ confidence r,
           ''Step '' @ str_int (step_number r) @ '' of '' @ str_int (total_steps r),
           [], ''REFACTORING FINDINGS:'']
          @ split_lines (findings r)
          @ [[], ''REFACTORING OPPORTUNITIES:'']
          @ map (\<lambda>issue. ''- '' @ repr (PDict issue)) issues)
   \<and> (\<forall>a r issues. TextReviewRequest_validate a = Inr r \<and> issues_found r = Some issues
        \<and> issues \<noteq> [] \<longrightarrow>
      sublist (findings r) (TextReviewTool_prepare_expert_analysis_context r)
      \<and> split_lines (TextReviewTool_prepare_expert_analysis_context r) =
          [''TEXT REVIEW REQUEST - '' @ str_upper (review_type r),
           ''Review confidence: '' @ confidence r,
           ''Step '' @ str_int (step_number r) @ '' of '' @ str_int (total_steps r),
           [], ''REVIEW FINDINGS:'']
          @ split_lines (findings r)
          @ [[], ''ISSUES IDENTIFIED:'']
          @ map (\<lambda>issue. ''- '' @ repr (PDict issue)) issues)
   \<and> (\<forall>a r. TextAnalyzeRequest_validate a = Inr r \<and> \<not> truthy (issues_found r) \<longrightarrow>
      split_lines (TextAnalyzeTool_prepare_expert_analysis_context r) =
          [''TEXT ANALYSIS REQUEST - '' @ str_upper (analysis_type r),
           ''Analysis confidence: '' @ confidence r,
           ''Step '' @ str_int (step_number r) @ '' of '' @ str_int (total_steps r),
           [], ''ANALYSIS FINDINGS:'']
          @ split_lines (findings r)
          @ (if truthy (relevant_context r)
             then [[], ''KEY THEMES/ARGUMENTS:'']
                  @ concat (map (\<lambda>t. split_lines (''- '' @ t)) (the (relevant_context r)))
             else []))
   \<and> (\<forall>a r. TextRefactorRequest_validate a = Inr r \<and> \<not> truthy (issues_found r) \<longrightarrow>
      split_lines (TextRefactorTool_prepare_expert_analysis_context r) =
          [''TEXT REFACTORING REQUEST - '' @ str_upper (refactor_type r),
           ''Refactoring confidence: '' @ confidence r,
           ''Step '' @ str_int (step_number r) @ '' of '' @ str_int (total_steps r),
           [], ''REFACTORING FINDINGS:'']
          @ split_lines (findings r)
          @ (if truthy (focus_areas r)
             then [[], ''FOCUS AREAS:'']
                  @ concat (map (\<lambda>t. split_lines (''- '' @ t)) (the (focus_areas r)))
             else []))
   \<and> (\<forall>a r. TextReviewRequest_validate a = Inr r \<and> \<not> truthy (issues_found r) \<longrightarrow>
      split_lines (TextReviewTool_prepare_expert_analysis_context r) =
          [''TEXT REVIEW REQUEST - '' @ str_upper (review_type r),
           ''Review confidence: '' @ confidence r,
           ''Step '' @ str_int (step_number r) @ '' of '' @ str_int (total_steps r),
           [], ''REVIEW FINDINGS:'']
          @ split_lines (findings r))"
proof (intro conjI allI impI; elim conjE)
  fix a r issues
  assume v: "TextAnalyzeRequest_validate a = Inr r" and i: "issues_found r = Some issues"
    and n: "issues \<noteq> []" and t: "\<not> truthy (relevant_context r)"
  from i n have ti: "truthy (issues_found r)" by (simp add: truthy_iff neq_Nil_conv)
  show "sublist (findings r) (TextAnalyzeTool_prepare_expert_analysis_context r)"
    unfolding analyze_context_parts by (rule sublist_parts) simp
  show "split_lines (TextAnalyzeTool_prepare_expert_analysis_context r) =
          [''TEXT ANALYSIS REQUEST - '' @ str_upper (analysis_type r),
           ''Analysis confidence: '' @ confidence r,
           ''Step '' @ str_int (step_number r) @ '' of '' @ str_int (total_steps r),
           [], ''ANALYSIS FINDINGS:'']
          @ split_lines (findings r)
          @ [[], ''ISSUES IDENTIFIED:'']
          @ map (\<lambda>issue. ''- '' @ repr (PDict issue)) issues"
  proof -
    have p: "TextAnalyzeTool_prepare_expert_analysis_context r =
       str_join [CHR 0x0A]
         ([''TEXT ANALYSIS REQUEST - '' @ str_upper (analysis_type r),
           ''Analysis confidence: '' @ confidence r,
           ''Step '' @ str_int (step_number r) @ '' of '' @ str_int (total_steps r),
           [], ''ANALYSIS FINDINGS:'']
          @ [findings r]
          @ ([[], ''ISSUES IDENTIFIED:''] @ map (\<lambda>issue. ''- '' @ repr (PDict issue)) issues)
          @ [])"
      unfolding analyze_context_parts using ti t i by (simp del: repr.simps)
    show ?thesis
      unfolding p split_lines_parts analyze_heading_lines [OF v]
        split_lines_issue_section [OF issue_titles_no_newline(1)]
      by (simp del: repr.simps)
  qed
next
  fix a r issues
  assume v: "TextRefactorRequest_validate a = Inr r" and i: "issues_found r = Some issues"
    and n: "issues \<noteq> []" and t: "\<not> truthy (focus_areas r)"
  from i n have ti: "truthy (issues_found r)" by (simp add: truthy_iff neq_Nil_conv)
  show "sublist (findings r) (TextRefactorTool_prepare_expert_analysis_context r)"
    unfolding refactor_context_parts by (rule sublist_parts) simp
  show "split_lines (TextRefactorTool_prepare_expert_analysis_context r) =
          [''TEXT REFACTORING REQUEST - '' @ str_upper (refactor_type r),
           ''Refactoring confidence: '' @ confidence r,
           ''Step '' @ str_int (step_number r) @ '' of '' @ str_int (total_steps r),
           [], ''REFACTORING FINDINGS:'']
          @ split_lines (findings r)
          @ [[], ''REFACTORING OPPORTUNITIES:'']
          @ map (\<lambda>issue. ''- '' @ repr (PDict issue)) issues"
  proof -
    have p: "TextRefactorTool_prepare_expert_analysis_context r =
       str_join [CHR 0x0A]
         ([''TEXT REFACTORING REQUEST - '' @ str_upper (refactor_type r),
           ''Refactoring confidence: '' @ confidence r,
           ''Step '' @ str_int (step_number r) @ '' of '' @ str_int (total_steps r),
           [], ''REFACTORING FINDINGS:'']
          @ [findings r]
          @ ([[], ''REFACTORING OPPORTUNITIES:'']
             @ map (\<lambda>issue. ''- '' @ repr (PDict issue)) issues)
          @ [])"
      unfolding refactor_context_parts using ti t i by (simp del: repr.simps)
    show ?thesis
      unfolding p split_lines_parts refactor_heading_lines [OF v]
        split_lines_issue_section [OF issue_titles_no_newline(2)]
      by (simp del: repr.simps)
  qed
next
  fix a r issues
  assume v: "TextReviewRequest_validate a = Inr r" and i: "issues_found r = Some issues"
    and n: "issues \<noteq> []"
  from i n have ti: "truthy (issues_found r)" by (simp add: truthy_iff neq_Nil_conv)
  have p: "TextReviewTool_prepare_expert_analysis_context r =
     str_join [CHR 0x0A]
       ([''TEXT REVIEW REQUEST - '' @ str_upper (review_type r),
         ''Review confidence: '' @ confidence r,
         ''Step '' @ str_int (step_number r) @ '' of '' @ str_int (total_steps r),
         [], ''REVIEW FINDINGS:'']
        @ [findings r]
        @ ([[], ''ISSUES IDENTIFIED:''] @ map (\<lambda>issue. ''- '' @ repr (PDict issue)) issues)
        @ [])"
    unfolding review_context_parts using ti i by (simp del: repr.simps)
  show "sublist (findings r) (TextReviewTool_prepare_expert_analysis_context r)"
    unfolding p by (rule sublist_parts) simp
  show "split_lines (TextReviewTool_prepare_expert_analysis_context r) =
          [''TEXT REVIEW REQUEST - '' @ str_upper (review_type r),
           ''Review confidence: '' @ confidence r,
           ''Step '' @ str_int (step_number r) @ '' of '' @ str_int (total_steps r),
           [], ''REVIEW FINDINGS:'']
          @ split_lines (findings r)
          @ [[], ''ISSUES IDENTIFIED:'']
          @ map (\<lambda>issue. ''- '' @ repr (PDict issue)) issues"
    unfolding p split_lines_parts review_heading_lines [OF v]
      split_lines_issue_section [OF issue_titles_no_newline(1)]
    by (simp del: repr.simps)
next
  fix a r
  assume v: "TextAnalyzeRequest_validate a = Inr r" and i: "\<not> truthy (issues_found r)"
  show "split_lines (TextAnalyzeTool_prepare_expert_analysis_context r) =
          [''TEXT ANALYSIS REQUEST - '' @ str_upper (analysis_type r),
           ''Analysis confidence: '' @ confidence r,
           ''Step '' @ str_int (step_number r) @ '' of '' @ str_int (total_steps r),
           [], ''ANALYSIS FINDINGS:'']
          @ split_lines (findings r)
          @ (if truthy (relevant_context r)
             then [[], ''KEY THEMES/ARGUMENTS:'']
                  @ concat (map (\<lambda>t. split_lines (''- '' @ t)) (the (relevant_context r)))
             else [])"
    unfolding analyze_context_parts split_lines_parts analyze_heading_lines [OF v]
    using i by (simp add: comp_def)
next
  fix a r
  assume v: "TextRefactorRequest_validate a = Inr r" and i: "\<not> truthy (issues_found r)"
  show "split_lines (TextRefactorTool_prepare_expert_analysis_context r) =
          [''TEXT REFACTORING REQUEST - '' @ str_upper (refactor_type r),
           ''Refactoring confidence: '' @ confidence r,
           ''Step '' @ str_int (step_number r) @ '' of '' @ str_int (total_steps r),
           [], ''REFACTORING FINDINGS:'']
          @ split_lines (findings r)
          @ (if truthy (focus_areas r)
             then [[], ''FOCUS AREAS:'']
                  @ concat (map (\<lambda>t. split_lines (''- '' @ t)) (the (focus_areas r)))
             else [])"
    unfolding refactor_context_parts split_lines_parts refactor_heading_lines [OF v]
    using i by (simp add: comp_def)
next
  fix a r
  assume v: "TextReviewRequest_validate a = Inr r" and i: "\<not> truthy (issues_found r)"
  have p: "TextReviewTool_prepare_expert_analysis_context r =
     str_join [CHR 0x0A]
       ([''TEXT REVIEW REQUEST - '' @ str_upper (review_type r),
         ''Review confidence: '' @ confidence r,
         ''Step '' @ str_int (step_number r) @ '' of '' @ str_int (total_steps r),
         [], ''REVIEW FINDINGS:'']
        @ [findings r] @ [] @ [])"
    unfolding review_context_parts using i by simp
  show "split_lines (TextReviewTool_prepare_expert_analysis_context r) =
          [''TEXT REVIEW REQUEST - '' @ str_upper (review_type r),
           ''Review confidence: '' @ confidence r,
           ''Step '' @ str_int (step_number r) @ '' of '' @ str_int (total_steps r),
           [], ''REVIEW FINDINGS:'']
          @ split_lines (findings r)"
    unfolding p split_lines_parts review_heading_lines [OF v] by simp
qed

theorem expert_context_findings_and_issues_witness:
  "TextAnalyzeRequest_validate (analyze_args_example\<lparr>arg_issues_found := Given issues_example\<rparr>)
     = Inr (analyze_request_example\<lparr>issues_found := Some issues_example\<rparr>)
   \<and> issues_example \<noteq> []
   \<and> \<not> truthy (relevant_context (analyze_request_example\<lparr>issues_found := Some issues_example\<rparr>))
   \<and> sublist ''Three sections, no summary''
        (TextAnalyzeTool_prepare_expert_analysis_context
           (analyze_request_example\<lparr>issues_found := Some issues_example\<rparr>))
   \<and> split_lines (TextAnalyzeTool_prepare_expert_analysis_context
          (analyze_request_example\<lparr>issues_found := Some issues_example\<rparr>))
     = [''TEXT ANALYSIS REQUEST - GENERAL'',
        ''Analysis confidence: exploring'',
        ''Step 1 of 3'',
        [],
        ''ANALYSIS FINDINGS:'',
        ''Three sections, no summary'',
        [],
        ''ISSUES IDENTIFIED:'',
        ''- {'severity': 'high', 'description': 'Too long'' @ [CHR 0x5C] @ ''nand vague'}'',
        ''- {'severity': 'low', 'line': 14}'']
   \<and> TextRefactorRequest_validate (refactor_args_example\<lparr>arg_issues_found := Given issues_example\<rparr>)
     = Inr (refactor_request_example\<lparr>issues_found := Some issues_example\<rparr>)
   \<and> split_lines (TextRefactorTool_prepare_expert_analysis_context
          (refactor_request_example\<lparr>issues_found := Some issues_example\<rparr>))
     = [''TEXT REFACTORING REQUEST - ORGANIZATION'',
        ''Refactoring confidence: partial'',
        ''Step 2 of 4'',
        [],
        ''REFACTORING FINDINGS:'',
        ''Section 2 repeats section 1'',
        [],
        ''REFACTORING OPPORTUNITIES:'',
        ''- {'severity': 'high', 'description': 'Too long'' @ [CHR 0x5C] @ ''nand vague'}'',
        ''- {'severity': 'low', 'line': 14}'']
   \<and> TextReviewRequest_validate (review_args_example\<lparr>arg_issues_found := Given issues_example\<rparr>)
     = Inr (review_request_example\<lparr>issues_found := Some issues_example\<rparr>)
   \<and> split_lines (TextReviewTool_prepare_expert_analysis_context
          (review_request_example\<lparr>issues_found := Some issues_example\<rparr>))
     = [''TEXT REVIEW REQUEST - COMPREHENSIVE'',
        ''Review confidence: certain'',
        ''Step 3 of 3'',
        [],
        ''REVIEW FINDINGS:'',
        ''The conclusion is sound'',
        [],
        ''ISSUES IDENTIFIED:'',
        ''- {'severity': 'high', 'description': 'Too long'' @ [CHR 0x5C] @ ''nand vague'}'',
        ''- {'severity': 'low', 'line': 14}'']
   \<and> split_lines (TextAnalyzeTool_prepare_expert_analysis_context analyze_request_example)
     = [''TEXT ANALYSIS REQUEST - GENERAL'',
        ''Analysis confidence: exploring'',
        ''Step 1 of 3'',
        [],
        ''ANALYSIS FINDINGS:'',
        ''Three sections, no summary'']
   \<and> split_lines (TextRefactorTool_prepare_expert_analysis_context refactor_request_example)
     = [''TEXT REFACTORING REQUEST - ORGANIZATION'',
        ''Refactoring confidence: partial'',
        ''Step 2 of 4'',
        [],
        ''REFACTORING FINDINGS:'',
        ''Section 2 repeats section 1'']
   \<and> split_lines (TextReviewTool_prepare_expert_analysis_context review_request_example)
     = [''TEXT REVIEW REQUEST - COMPREHENSIVE'',
        ''Review confidence: certain'',
        ''Step 3 of 3'',
        [],
        ''REVIEW FINDINGS:'',
        ''The conclusion is sound'']"
proof -
  note t = expert_context_findings_and_issues
  let ?a = "analyze_request_example\<lparr>issues_found := Some issues_example\<rparr>"
  let ?f = "refactor_request_example\<lparr>issues_found := Some issues_example\<rparr>"
  let ?v = "review_request_example\<lparr>issues_found := Some issues_example\<rparr>"
  have va: "TextAnalyzeRequest_validate (analyze_args_example\<lparr>arg_issues_found := Given issues_example\<rparr>)
     = Inr ?a"
    by (simp add: TextAnalyzeRequest_validate_def TextAnalyzeRequest_errors_def
        analyze_args_example_def analyze_request_example_def vocabulary_defs)
  have vf: "TextRefactorRequest_validate (refactor_args_example\<lparr>arg_issues_found := Given issues_example\<rparr>)
     = Inr ?f"
    by (simp add: TextRefactorRequest_validate_def TextRefactorRequest_errors_def
        refactor_args_example_def refactor_request_example_def vocabulary_defs)
  have vv: "TextReviewRequest_validate (review_args_example\<lparr>arg_issues_found := Given issues_example\<rparr>)
     = Inr ?v"
    by (simp add: TextReviewRequest_validate_def TextReviewRequest_errors_def
        review_args_example_def review_request_example_def vocabulary_defs)
  have n: "issues_example \<noteq> []" by (simp add: issues_example_def)
  have ha: "issues_found ?a = Some issues_example" "\<not> truthy (relevant_context ?a)"
    and hf: "issues_found ?f = Some issues_example" "\<not> truthy (focus_areas ?f)"
    and hv: "issues_found ?v = Some issues_example"
    by (simp_all add: analyze_request_example_def refactor_request_example_def
        review_request_example_def)
  have e: "\<not> truthy (issues_found analyze_request_example)"
      "\<not> truthy (issues_found refactor_request_example)"
      "\<not> truthy (issues_found review_request_example)"
      "\<not> truthy (relevant_context analyze_request_example)"
      "\<not> truthy (focus_areas refactor_request_example)"
    by (simp_all add: analyze_request_example_def refactor_request_example_def
        review_request_example_def)
  have r: "map (\<lambda>issue. ''- '' @ repr (PDict issue)) issues_example =
      [''- {'severity': 'high', 'description': 'Too long'' @ [CHR 0x5C] @ ''nand vague'}'',
       ''- {'severity': 'low', 'line': 14}'']"
    unfolding issues_example_def by code_simp
  have s: "split_lines ''Three sections, no summary'' = [''Three sections, no summary'']"
    "split_lines ''Section 2 repeats section 1'' = [''Section 2 repeats section 1'']"
    "split_lines ''The conclusion is sound'' = [''The conclusion is sound'']"
    by (simp_all add: split_lines_no_newline)
  note c1 = t [THEN conjunct1, rule_format, OF conjI [OF va conjI [OF ha(1) conjI [OF n ha(2)]]]]
  note c2 = t [THEN conjunct2, THEN conjunct1, rule_format,
      OF conjI [OF vf conjI [OF hf(1) conjI [OF n hf(2)]]]]
  note c3 = t [THEN conjunct2, THEN conjunct2, THEN conjunct1, rule_format,
      OF conjI [OF vv conjI [OF hv n]]]
  note c4 = t [THEN conjunct2, THEN conjunct2, THEN conjunct2, THEN conjunct1, rule_format,
      OF conjI [OF analyze_example_valid e(1)]]
  note c5 = t [THEN conjunct2, THEN conjunct2, THEN conjunct2, THEN conjunct2, THEN conjunct1,
      rule_format, OF conjI [OF refactor_example_valid e(2)]]
  note c6 = t [THEN conjunct2, THEN conjunct2, THEN conjunct2, THEN conjunct2, THEN conjunct2,
      rule_format, OF conjI [OF review_example_valid e(3)]]
  have fa: "findings ?a = ''Three sections, no summary''"
      "analysis_type ?a = ''general''" "confidence ?a = ''exploring''"
      "step_number ?a = 1" "total_steps ?a = 3"
    and ff: "findings ?f = ''Section 2 repeats section 1''"
      "refactor_type ?f = ''organization''" "confidence ?f = ''partial''"
      "step_number ?f = 2" "total_steps ?f = 4"
    and fv: "findings ?v = ''The conclusion is sound''"
      "review_type ?v = ''comprehensive''" "confidence ?v = ''certain''"
      "step_number ?v = 3" "total_steps ?v = 3"
    by (simp_all add: analyze_request_example_def refactor_request_example_def
        review_request_example_def)
  have fa': "findings analyze_request_example = ''Three sections, no summary''"
      "analysis_type analyze_request_example = ''general''"
      "confidence analyze_request_example = ''exploring''"
      "step_number analyze_request_example = 1" "total_steps analyze_request_example = 3"
    and ff': "findings refactor_request_example = ''Section 2 repeats section 1''"
      "refactor_type refactor_request_example = ''organization''"
      "confidence refactor_request_example = ''partial''"
      "step_number refactor_request_example = 2" "total_steps refactor_request_example = 4"
    and fv': "findings review_request_example = ''The conclusion is sound''"
      "review_type review_request_example = ''comprehensive''"
      "confidence review_request_example = ''certain''"
      "step_number review_request_example = 3" "total_steps review_request_example = 3"
    by (simp_all add: analyze_request_example_def refactor_request_example_def
        review_request_example_def)
  have "sublist ''Three sections, no summary''
        (TextAnalyzeTool_prepare_expert_analysis_context ?a)"
    using c1 [THEN conjunct1] unfolding fa .
  moreover have "split_lines (TextAnalyzeTool_prepare_expert_analysis_context ?a)
     = [''TEXT ANALYSIS REQUEST - GENERAL'', ''Analysis confidence: exploring'',
        ''Step 1 of 3'', [], ''ANALYSIS FINDINGS:'', ''Three sections, no summary'',
        [], ''ISSUES IDENTIFIED:'',
        ''- {'severity': 'high', 'description': 'Too long'' @ [CHR 0x5C] @ ''nand vague'}'',
        ''- {'severity': 'low', 'line': 14}'']"
    using c1 [THEN conjunct2] unfolding fa r s str_upper_vocabulary str_int_examples by simp
  moreover have "split_lines (TextRefactorTool_prepare_expert_analysis_context ?f)
     = [''TEXT REFACTORING REQUEST - ORGANIZATION'', ''Refactoring confidence: partial'',
        ''Step 2 of 4'', [], ''REFACTORING FINDINGS:'', ''Section 2 repeats section 1'',
        [], ''REFACTORING OPPORTUNITIES:'',
        ''- {'severity': 'high', 'description': 'Too long'' @ [CHR 0x5C] @ ''nand vague'}'',
        ''- {'severity': 'low', 'line': 14}'']"
    using c2 [THEN conjunct2] unfolding ff r s str_upper_vocabulary str_int_examples by simp
  moreover have "split_lines (TextReviewTool_prepare_expert_analysis_context ?v)
     = [''TEXT REVIEW REQUEST - COMPREHENSIVE'', ''Review confidence: certain'',
        ''Step 3 of 3'', [], ''REVIEW FINDINGS:'', ''The conclusion is sound'',
        [], ''ISSUES IDENTIFIED:'',
        ''- {'severity': 'high', 'description': 'Too long'' @ [CHR 0x5C] @ ''nand vague'}'',
        ''- {'severity': 'low', 'line': 14}'']"
    using c3 [THEN conjunct2] unfolding fv r s str_upper_vocabulary str_int_examples by simp
  moreover have "split_lines (TextAnalyzeTool_prepare_expert_analysis_context analyze_request_example)
     = [''TEXT ANALYSIS REQUEST - GENERAL'', ''Analysis confidence: exploring'',
        ''Step 1 of 3'', [], ''ANALYSIS FINDINGS:'', ''Three sections, no summary'']"
    using c4 e(4) unfolding fa' s str_upper_vocabulary str_int_examples by simp
  moreover have "split_lines (TextRefactorTool_prepare_expert_analysis_context refactor_request_example)
     = [''TEXT REFACTORING REQUEST - ORGANIZATION'', ''Refactoring confidence: partial'',
        ''Step 2 of 4'', [], ''REFACTORING FINDINGS:'', ''Section 2 repeats section 1'']"
    using c5 e(5) unfolding ff' s str_upper_vocabulary str_int_examples by simp
  moreover have "split_lines (TextReviewTool_prepare_expert_analysis_context review_request_example)
     = [''TEXT REVIEW REQUEST - COMPREHENSIVE'', ''Review confidence: certain'',
        ''Step 3 of 3'', [], ''REVIEW FINDINGS:'', ''The conclusion is sound'']"
    using c6 unfolding fv' s str_upper_vocabulary str_int_examples by simp
  ultimately show ?thesis using va vf vv n ha(2) by simp
qed

lemma dash_prefix: "(@) ''- '' = (\<lambda>t. CHR ''-'' # CHR '' '' # t)"
  by (simp add: fun_eq_iff)

lemma split_lines_join_section:
  assumes "parts \<noteq> []" "CHR 0x0A \<notin> set title" "\<forall>t \<in> set entries. CHR 0x0A \<notin> set t"
  shows "split_lines (str_join [CHR 0x0A] (parts @ [[], title] @ map (\<lambda>t. ''- '' @ t) entries))
       = split_lines (str_join [CHR 0x0A] parts) @ [[], title] @ map (\<lambda>t. ''- '' @ t) entries"
proof -
  have "split_lines (str_join [CHR 0x0A] (parts @ [[], title] @ map (\<lambda>t. ''- '' @ t) entries))
      = concat (map split_lines parts) @ concat (map split_lines [[], title])
        @ concat (map split_lines (map (\<lambda>t. ''- '' @ t) entries))"
    by (subst split_lines_join) simp_all
  also have "concat (map split_lines parts) = split_lines (str_join [CHR 0x0A] parts)"
    using assms(1) by (simp add: split_lines_join)
  also have "concat (map split_lines [[], title]) = [[], title]"
    using assms(2) by (simp add: split_lines_no_newline)
  also have "concat (map split_lines (map (\<lambda>t. ''- '' @ t) entries))
      = map (\<lambda>t. ''- '' @ t) entries"
    using assms(3) by (rule split_lines_entry_lines)
  finally show ?thesis .
qed

subsection \<open>The expert analysis context: themes and focus areas\<close>

text \<open>
  Claim C4, as amended. The Review context has no themes section: \<^verbatim>\<open>relevant_context\<close>
  is not read by \<^verbatim>\<open>TextReviewTool.prepare_expert_analysis_context\<close>. And an entry is
  inserted as it is, so an entry that holds a line feed takes more than one line. What
  holds is this. For Analyze with a non-empty \<^verbatim>\<open>relevant_context\<close>, and for Refactor with
  a non-empty \<^verbatim>\<open>focus_areas\<close>, the context is the context of the same request without
  that collection (heading, findings and the issues section when there is one), followed
  by an empty line, the title of the section, and for each entry in the order of the
  list a line feed, \<^verbatim>\<open>- \<close> and the entry. When no entry holds a line feed, the lines of
  the context are the lines of the context without the collection, an empty line, the
  title, and one line per entry.
\<close>

theorem themes_section_counterexample:
  "TextReviewRequest_validate
     (review_args_example\<lparr>arg_confidence := Given ''high'',
        arg_relevant_context := Given [''tone'', ''audience'']\<rparr>)
     = Inr (review_request_example\<lparr>confidence := ''high'',
        relevant_context := Some [''tone'', ''audience'']\<rparr>)
   \<and> split_lines (TextReviewTool_prepare_expert_analysis_context
        (review_request_example\<lparr>confidence := ''high'',
           relevant_context := Some [''tone'', ''audience'']\<rparr>))
     = [''TEXT REVIEW REQUEST - COMPREHENSIVE'',
        ''Review confidence: high'',
        ''Step 3 of 3'',
        [],
        ''REVIEW FINDINGS:'',
        ''The conclusion is sound'']
   \<and> TextAnalyzeRequest_validate
     (analyze_args_example\<lparr>arg_relevant_context := Given [''tone of the\<newline>closing section'']\<rparr>)
     = Inr (analyze_request_example\<lparr>relevant_context :=
              Some [''tone of the\<newline>closing section'']\<rparr>)
   \<and> split_lines (TextAnalyzeTool_prepare_expert_analysis_context
        (analyze_request_example\<lparr>relevant_context :=
           Some [''tone of the\<newline>closing section'']\<rparr>))
     = [''TEXT ANALYSIS REQUEST - GENERAL'',
        ''Analysis confidence: exploring'',
        ''Step 1 of 3'',
        [],
        ''ANALYSIS FINDINGS:'',
        ''Three sections, no summary'',
        [],
        ''KEY THEMES/ARGUMENTS:'',
        ''- tone of the'',
        ''closing section'']"
proof -
  have "TextReviewRequest_validate
     (review_args_example\<lparr>arg_confidence := Given ''high'',
        arg_relevant_context := Given [''tone'', ''audience'']\<rparr>)
     = Inr (review_request_example\<lparr>confidence := ''high'',
        relevant_context := Some [''tone'', ''audience'']\<rparr>)"
    by (simp add: TextReviewRequest_validate_def TextReviewRequest_errors_def
        review_args_example_def review_request_example_def vocabulary_defs)
  moreover have "TextAnalyzeRequest_validate
     (analyze_args_example\<lparr>arg_relevant_context := Given [''tone of the\<newline>closing section'']\<rparr>)
     = Inr (analyze_request_example\<lparr>relevant_context :=
              Some [''tone of the\<newline>closing section'']\<rparr>)"
    by (simp add: TextAnalyzeRequest_validate_def TextAnalyzeRequest_errors_def
        analyze_args_example_def analyze_request_example_def vocabulary_defs)
  moreover have "split_lines (TextReviewTool_prepare_expert_analysis_context
        (review_request_example\<lparr>confidence := ''high'',
           relevant_context := Some [''tone'', ''audience'']\<rparr>))
     = [''TEXT REVIEW REQUEST - COMPREHENSIVE'', ''Review confidence: high'', ''Step 3 of 3'',
        [], ''REVIEW FINDINGS:'', ''The conclusion is sound'']"
    unfolding review_context_parts split_lines_parts
    by (simp add: review_request_example_def str_upper_vocabulary str_int_examples
        split_lines_no_newline)
  moreover have "split_lines (TextAnalyzeTool_prepare_expert_analysis_context
        (analyze_request_example\<lparr>relevant_context :=
           Some [''tone of the\<newline>closing section'']\<rparr>))
     = [''TEXT ANALYSIS REQUEST - GENERAL'', ''Analysis confidence: exploring'',
        ''Step 1 of 3'', [], ''ANALYSIS FINDINGS:'', ''Three sections, no summary'',
        [], ''KEY THEMES/ARGUMENTS:'', ''- tone of the'', ''closing section'']"
    unfolding analyze_context_parts split_lines_parts
    by (simp add: analyze_request_example_def str_upper_vocabulary str_int_examples
        split_lines_no_newline)
  ultimately show ?thesis by simp
qed

theorem themes_section_follows_findings_and_issues:
  "(\<forall>r entries. relevant_context r = Some entries \<and> entries \<noteq> [] \<longrightarrow>
      TextAnalyzeTool_prepare_expert_analysis_context r
        = TextAnalyzeTool_prepare_expert_analysis_context (r\<lparr>relevant_context := None\<rparr>)
          @ [CHR 0x0A, CHR 0x0A] @ ''KEY THEMES/ARGUMENTS:''
          @ concat (map (\<lambda>t. [CHR 0x0A] @ ''- '' @ t) entries)
      \<and> ((\<forall>t \<in> set entries. CHR 0x0A \<notin> set t) \<longrightarrow>
          split_lines (TextAnalyzeTool_prepare_expert_analysis_context r)
            = split_lines (TextAnalyzeTool_prepare_expert_analysis_context
                (r\<lparr>relevant_context := None\<rparr>))
              @ [[], ''KEY THEMES/ARGUMENTS:''] @ map (\<lambda>t. ''- '' @ t) entries))
   \<and> (\<forall>r entries. focus_areas r = Some entries \<and> entries \<noteq> [] \<longrightarrow>
      TextRefactorTool_prepare_expert_analysis_context r
        = TextRefactorTool_prepare_expert_analysis_context (r\<lparr>focus_areas := None\<rparr>)
          @ [CHR 0x0A, CHR 0x0A] @ ''FOCUS AREAS:''
          @ concat (map (\<lambda>t. [CHR 0x0A] @ ''- '' @ t) entries)
      \<and> ((\<forall>t \<in> set entries. CHR 0x0A \<notin> set t) \<longrightarrow>
          split_lines (TextRefactorTool_prepare_expert_analysis_context r)
            = split_lines (TextRefactorTool_prepare_expert_analysis_context
                (r\<lparr>focus_areas := None\<rparr>))
              @ [[], ''FOCUS AREAS:''] @ map (\<lambda>t. ''- '' @ t) entries))"
proof (intro conjI allI impI; elim conjE)
  fix r :: TextAnalyzeRequest and entries
  assume c: "relevant_context r = Some entries" and n: "entries \<noteq> []"
  define parts where "parts =
       [''TEXT ANALYSIS REQUEST - '' @ str_upper (analysis_type r),
         ''Analysis confidence: '' @ confidence r,
         ''Step '' @ str_int (step_number r) @ '' of '' @ str_int (total_steps r),
         [], ''ANALYSIS FINDINGS:'']
        @ [findings r]
        @ (if truthy (issues_found r)
           then [[], ''ISSUES IDENTIFIED:'']
                @ map (\<lambda>issue. ''- '' @ repr (PDict issue)) (the (issues_found r))
           else [])"
  have p: "parts \<noteq> []" by (simp add: parts_def)
  from c n have tc: "truthy (relevant_context r)" by (simp add: truthy_iff neq_Nil_conv)
  have full: "TextAnalyzeTool_prepare_expert_analysis_context r
      = str_join [CHR 0x0A] (parts @ [[], ''KEY THEMES/ARGUMENTS:''] @ map (\<lambda>t. ''- '' @ t) entries)"
    unfolding analyze_context_parts parts_def using tc c
    by (simp del: repr.simps add: dash_prefix)
  have base: "TextAnalyzeTool_prepare_expert_analysis_context (r\<lparr>relevant_context := None\<rparr>)
      = str_join [CHR 0x0A] parts"
    unfolding analyze_context_parts parts_def by (simp del: repr.simps)
  show "TextAnalyzeTool_prepare_expert_analysis_context r
        = TextAnalyzeTool_prepare_expert_analysis_context (r\<lparr>relevant_context := None\<rparr>)
          @ [CHR 0x0A, CHR 0x0A] @ ''KEY THEMES/ARGUMENTS:''
          @ concat (map (\<lambda>t. [CHR 0x0A] @ ''- '' @ t) entries)"
    unfolding full base by (rule str_join_section [OF p])
  assume "\<forall>t \<in> set entries. CHR 0x0A \<notin> set t"
  then show "split_lines (TextAnalyzeTool_prepare_expert_analysis_context r)
            = split_lines (TextAnalyzeTool_prepare_expert_analysis_context
                (r\<lparr>relevant_context := None\<rparr>))
              @ [[], ''KEY THEMES/ARGUMENTS:''] @ map (\<lambda>t. ''- '' @ t) entries"
    unfolding full base by (intro split_lines_join_section [OF p]) simp_all
next
  fix r :: TextRefactorRequest and entries
  assume c: "focus_areas r = Some entries" and n: "entries \<noteq> []"
  define parts where "parts =
       [''TEXT REFACTORING REQUEST - '' @ str_upper (refactor_type r),
         ''Refactoring confidence: '' @ confidence r,
         ''Step '' @ str_int (step_number r) @ '' of '' @ str_int (total_steps r),
         [], ''REFACTORING FINDINGS:'']
        @ [findings r]
        @ (if truthy (issues_found r)
           then [[], ''REFACTORING OPPORTUNITIES:'']
                @ map (\<lambda>issue. ''- '' @ repr (PDict issue)) (the (issues_found r))
           else [])"
  have p: "parts \<noteq> []" by (simp add: parts_def)
  from c n have tc: "truthy (focus_areas r)" by (simp add: truthy_iff neq_Nil_conv)
  have full: "TextRefactorTool_prepare_expert_analysis_context r
      = str_join [CHR 0x0A] (parts @ [[], ''FOCUS AREAS:''] @ map (\<lambda>t. ''- '' @ t) entries)"
    unfolding refactor_context_parts parts_def using tc c
    by (simp del: repr.simps add: dash_prefix)
  have base: "TextRefactorTool_prepare_expert_analysis_context (r\<lparr>focus_areas := None\<rparr>)
      = str_join [CHR 0x0A] parts"
    unfolding refactor_context_parts parts_def by (simp del: repr.simps)
  show "TextRefactorTool_prepare_expert_analysis_context r
        = TextRefactorTool_prepare_expert_analysis_context (r\<lparr>focus_areas := None\<rparr>)
          @ [CHR 0x0A, CHR 0x0A] @ ''FOCUS AREAS:''
          @ concat (map (\<lambda>t. [CHR 0x0A] @ ''- '' @ t) entries)"
    unfolding full base by (rule str_join_section [OF p])
  assume "\<forall>t \<in> set entries. CHR 0x0A \<notin> set t"
  then show "split_lines (TextRefactorTool_prepare_expert_analysis_context r)
            = split_lines (TextRefactorTool_prepare_expert_analysis_context
                (r\<lparr>focus_areas := None\<rparr>))
              @ [[], ''FOCUS AREAS:''] @ map (\<lambda>t. ''- '' @ t) entries"
    unfolding full base by (intro split_lines_join_section [OF p]) simp_all
qed
theorem themes_section_follows_findings_and_issues_witness:
  "relevant_context (analyze_request_example\<lparr>relevant_context := Some [''tone'', ''audience'']\<rparr>)
     = Some [''tone'', ''audience'']
   \<and> [''tone'', ''audience''] \<noteq> []
   \<and> CHR 0x0A \<notin> set ''tone'' \<and> CHR 0x0A \<notin> set ''audience''
   \<and> split_lines (TextAnalyzeTool_prepare_expert_analysis_context
        (analyze_request_example\<lparr>relevant_context := Some [''tone'', ''audience'']\<rparr>))
     = [''TEXT ANALYSIS REQUEST - GENERAL'',
        ''Analysis confidence: exploring'',
        ''Step 1 of 3'',
        [],
        ''ANALYSIS FINDINGS:'',
        ''Three sections, no summary'',
        [],
        ''KEY THEMES/ARGUMENTS:'',
        ''- tone'',
        ''- audience'']
   \<and> focus_areas (refactor_request_example\<lparr>issues_found := Some issues_example,
          focus_areas := Some [''introduction'', ''transitions'']\<rparr>)
     = Some [''introduction'', ''transitions'']
   \<and> [''introduction'', ''transitions''] \<noteq> []
   \<and> CHR 0x0A \<notin> set ''introduction'' \<and> CHR 0x0A \<notin> set ''transitions''
   \<and> split_lines (TextRefactorTool_prepare_expert_analysis_context
        (refactor_request_example\<lparr>issues_found := Some issues_example,
           focus_areas := Some [''introduction'', ''transitions'']\<rparr>))
     = [''TEXT REFACTORING REQUEST - ORGANIZATION'',
        ''Refactoring confidence: partial'',
        ''Step 2 of 4'',
        [],
        ''REFACTORING FINDINGS:'',
        ''Section 2 repeats section 1'',
        [],
        ''REFACTORING OPPORTUNITIES:'',
        ''- {'severity': 'high', 'description': 'Too long'' @ [CHR 0x5C] @ ''nand vague'}'',
        ''- {'severity': 'low', 'line': 14}'',
        [],
        ''FOCUS AREAS:'',
        ''- introduction'',
        ''- transitions'']"
proof -
  note t = themes_section_follows_findings_and_issues
  let ?a = "analyze_request_example\<lparr>relevant_context := Some [''tone'', ''audience'']\<rparr>"
  let ?f = "refactor_request_example\<lparr>issues_found := Some issues_example,
          focus_areas := Some [''introduction'', ''transitions'']\<rparr>"
  have ha: "relevant_context ?a = Some [''tone'', ''audience'']"
    and hf: "focus_areas ?f = Some [''introduction'', ''transitions'']"
    by (simp_all add: analyze_request_example_def refactor_request_example_def)
  have n: "[''tone'', ''audience''] \<noteq> []" "[''introduction'', ''transitions''] \<noteq> []"
    by simp_all
  have l: "\<forall>t \<in> set [''tone'', ''audience'']. CHR 0x0A \<notin> set t"
    "\<forall>t \<in> set [''introduction'', ''transitions'']. CHR 0x0A \<notin> set t"
    by simp_all
  have ba: "split_lines (TextAnalyzeTool_prepare_expert_analysis_context
        (?a\<lparr>relevant_context := None\<rparr>))
     = [''TEXT ANALYSIS REQUEST - GENERAL'', ''Analysis confidence: exploring'',
        ''Step 1 of 3'', [], ''ANALYSIS FINDINGS:'', ''Three sections, no summary'']"
    unfolding analyze_context_parts split_lines_parts
    by (simp add: analyze_request_example_def str_upper_vocabulary str_int_examples
        split_lines_no_newline)
  have bf: "split_lines (TextRefactorTool_prepare_expert_analysis_context
        (?f\<lparr>focus_areas := None\<rparr>))
     = [''TEXT REFACTORING REQUEST - ORGANIZATION'', ''Refactoring confidence: partial'',
        ''Step 2 of 4'', [], ''REFACTORING FINDINGS:'', ''Section 2 repeats section 1'',
        [], ''REFACTORING OPPORTUNITIES:'',
        ''- {'severity': 'high', 'description': 'Too long'' @ [CHR 0x5C] @ ''nand vague'}'',
        ''- {'severity': 'low', 'line': 14}'']"
    unfolding refactor_request_example_def issues_example_def by code_simp
  note ca = t [THEN conjunct1, rule_format, OF conjI [OF ha n(1)], THEN conjunct2,
      THEN mp, OF l(1)]
  note cf = t [THEN conjunct2, rule_format, OF conjI [OF hf n(2)], THEN conjunct2,
      THEN mp, OF l(2)]
  have "split_lines (TextAnalyzeTool_prepare_expert_analysis_context ?a)
     = [''TEXT ANALYSIS REQUEST - GENERAL'', ''Analysis confidence: exploring'',
        ''Step 1 of 3'', [], ''ANALYSIS FINDINGS:'', ''Three sections, no summary'',
        [], ''KEY THEMES/ARGUMENTS:'', ''- tone'', ''- audience'']"
    using ca unfolding ba by simp
  moreover have "split_lines (TextRefactorTool_prepare_expert_analysis_context ?f)
     = [''TEXT REFACTORING REQUEST - ORGANIZATION'', ''Refactoring confidence: partial'',
        ''Step 2 of 4'', [], ''REFACTORING FINDINGS:'', ''Section 2 repeats section 1'',
        [], ''REFACTORING OPPORTUNITIES:'',
        ''- {'severity': 'high', 'description': 'Too long'' @ [CHR 0x5C] @ ''nand vague'}'',
        ''- {'severity': 'low', 'line': 14}'',
        [], ''FOCUS AREAS:'', ''- introduction'', ''- transitions'']"
    using cf unfolding bf by simp
  ultimately show ?thesis using ha hf by simp
qed

end
